theory Spec2Isabelle
  imports Complex_Main "HOL-Library.Multiset"
begin

section \<open>Data model of the launcher (dso/run.py)\<close>

text \<open>
  Python values that occur in a result record or a summary row. A float is modelled by
  a real number: rounding of floating-point arithmetic is abstracted.
\<close>

datatype pyval = PNone | PBool bool | PInt int | PFloat real | PStr string | PObj string

text \<open>
  A Python dict keeps its keys in insertion order, and pandas derives the columns of a
  row from that order: a dict is an association list.
\<close>

type_synonym dict = "(string \<times> pyval) list"

datatype error =
    ValueError string
  | TypeError string
  | KeyError string
  | UnboundLocalError string
  | TrainingError string
  | EnvironmentError string
  | AnalysisError string

text \<open>
  The configuration is the nested mapping returned by \<open>load_config\<close>; the records hold
  the keys the launcher reads or writes. The \<open>seed\<close> entry has three states, since the
  launcher subscripts it and a missing key raises KeyError: the key is missing, its value
  is null, or its value is an integer. The other keys the launcher reads are taken to be
  present; where their value may be null it is an option, and so are the entries the
  launcher only assigns (\<open>dataset\<close>, \<open>starting_seed\<close>, \<open>cmd\<close>, \<open>timestamp\<close>), for which \<open>None\<close>
  also stands for a key not yet there.
\<close>

datatype seed_entry = Missing | Null | Seed int

record task_config =
  task_type :: string
  dataset :: "string option"
  env :: "string option"

record experiment_config =
  seed :: seed_entry
  starting_seed :: "int option"
  cmd :: "string option"
  timestamp :: "string option"

record training_config =
  verbose :: bool
  n_cores_batch :: int
  hof :: "int option"
  save_pareto_front :: bool

record postprocess_config =
  show_count :: int
  save_plots :: bool

record config =
  task :: task_config
  experiment_sec :: experiment_config
  training :: training_config
  postprocess :: postprocess_config

text \<open>What the opaque \<open>DeepSymbolicOptimizer\<close> hands back for one configuration.\<close>

record trained =
  returned :: dict
  t_start :: real
  t_stop :: real
  save_path :: string

record analysis =
  config_path :: string
  show_count_arg :: int
  show_hof_arg :: bool
  show_pf_arg :: bool
  save_plots_arg :: bool

text \<open>
  The external collaborators of one invocation: the command line, the clock, the host,
  the training routine, the environment registry, the instant at which the pool completes
  each task, and the log analyser.
\<close>

record world =
  argv :: "string list"
  now :: string
  cpu_count :: int
  train :: "config \<Rightarrow> error + trained"
  gym_make :: "string option \<Rightarrow> error option"
  finish :: "config \<Rightarrow> nat"
  analyze_log :: "analysis \<Rightarrow> error option"

text \<open>The lines the launcher prints, one constructor per format string.\<close>

datatype message =
    OverwritingSeed
  | SettingNCoresTask int int
  | SettingVerbose
  | SettingNCoresBatch
  | RunningSeeds int
  | Completed nat int pyval

datatype row = Header "string list" | Data "pyval list"

type_synonym filesystem = "string \<rightharpoonup> row list"

text \<open>
  The observable state of a run: console output, the files, and the two logs of the
  calls the coordinator makes (replicates whose execution it consumed, and results it
  handed to the aggregator).
\<close>

record state =
  stdout :: "message list"
  files :: filesystem
  executed :: "config list"
  aggregated :: "(dict \<times> string) list"

section \<open>Library functions the launcher calls\<close>

text \<open>\<open>d[k] = v\<close>: an existing key keeps its place, a new key goes last.\<close>

fun dict_set :: "string \<Rightarrow> pyval \<Rightarrow> dict \<Rightarrow> dict" where
  "dict_set k v [] = [(k, v)]"
| "dict_set k v ((k', v') # d) =
     (if k' = k then (k, v) # d else (k', v') # dict_set k v d)"

text \<open>\<open>d.pop(k)\<close> without a default raises KeyError when the key is missing.\<close>

definition dict_pop :: "string \<Rightarrow> dict \<Rightarrow> error + (pyval \<times> dict)" where
  "dict_pop k d =
     (case map_of d k of
        None \<Rightarrow> Inl (KeyError k)
      | Some v \<Rightarrow> Inr (v, filter (\<lambda>kv. fst kv \<noteq> k) d))"

text \<open>\<open>" ".join(words)\<close>\<close>

fun join_words :: "string list \<Rightarrow> string" where
  "join_words [] = []"
| "join_words [x] = x"
| "join_words (x # y # ys) = x @ '' '' @ join_words (y # ys)"

text \<open>\<open>os.path.join(a, b)\<close> and \<open>os.path.dirname(p)\<close> of posixpath.\<close>

definition path_join :: "string \<Rightarrow> string \<Rightarrow> string" where
  "path_join a b =
     (if b \<noteq> [] \<and> hd b = CHR ''/'' then b
      else if a = [] \<or> last a = CHR ''/'' then a @ b
      else a @ ''/'' @ b)"

definition dirname :: "string \<Rightarrow> string" where
  "dirname p =
     (let head = rev (dropWhile (\<lambda>c. c \<noteq> CHR ''/'') (rev p))
      in if head \<noteq> [] \<and> head \<noteq> replicate (length head) (CHR ''/'')
         then rev (dropWhile (\<lambda>c. c = CHR ''/'') (rev head))
         else head)"

definition path_exists :: "filesystem \<Rightarrow> string \<Rightarrow> bool" where
  "path_exists fs p = (fs p \<noteq> None)"

text \<open>
  \<open>pd.DataFrame(result, index=[0]).to_csv(path, header=h, mode='a', index=False)\<close>:
  one row whose columns are the keys of the record, appended to the file, which mode
  \<open>'a'\<close> creates when it is missing; the header line is written iff \<open>h\<close>.
\<close>

definition to_csv :: "dict \<Rightarrow> string \<Rightarrow> bool \<Rightarrow> filesystem \<Rightarrow> filesystem" where
  "to_csv result path header fs =
     fs(path \<mapsto> (case fs path of None \<Rightarrow> [] | Some rows \<Rightarrow> rows)
                 @ (if header then [Header (map fst result)] else [])
                 @ [Data (map snd result)])"

text \<open>The call of lines 105 and 110: the header is requested iff the file is missing.\<close>

definition append_summary :: "dict \<Rightarrow> string \<Rightarrow> filesystem \<Rightarrow> filesystem" where
  "append_summary result path fs = to_csv result path (\<not> path_exists fs path) fs"

fun is_header :: "row \<Rightarrow> bool" where
  "is_header (Header _) = True"
| "is_header (Data _) = False"

definition header_rows :: "row list \<Rightarrow> nat" where
  "header_rows rows = length (filter is_header rows)"

definition data_rows :: "row list \<Rightarrow> nat" where
  "data_rows rows = length (filter (\<lambda>r. \<not> is_header r) rows)"

definition data_row :: "dict \<Rightarrow> row" where
  "data_row result = Data (map snd result)"

text \<open>A sequence of append calls to one path, oldest first.\<close>

definition append_all :: "dict list \<Rightarrow> string \<Rightarrow> filesystem \<Rightarrow> filesystem" where
  "append_all results path fs = foldl (\<lambda>f r. append_summary r path f) fs results"

section \<open>train_dso\<close>

definition train_dso :: "world \<Rightarrow> config \<Rightarrow> error + (dict \<times> string)" where
  "train_dso w c =
     (case (if task_type (task c) = ''control'' \<and> n_cores_batch (training c) > 1
            then gym_make w (env (task c)) else None) of
        Some e \<Rightarrow> Inl e
      | None \<Rightarrow>
          (case train w c of
             Inl e \<Rightarrow> Inl e
           | Inr tr \<Rightarrow>
               (let result = dict_set ''t'' (PFloat (t_stop tr - t_start tr)) (returned tr)
                in case dict_pop ''program'' result of
                     Inl e \<Rightarrow> Inl e
                   | Inr (_, result') \<Rightarrow>
                       Inr (result', path_join (save_path tr) ''summary.csv''))))"

section \<open>main: preparing the configuration\<close>

text \<open>Lines 55-64: the benchmark override.\<close>

definition override_benchmark :: "config \<Rightarrow> string option \<Rightarrow> error + config" where
  "override_benchmark c benchmark =
     (case benchmark of
        None \<Rightarrow> Inr c
      | Some b \<Rightarrow>
          if task_type (task c) = ''regression''
            then Inr (c\<lparr>task := (task c)\<lparr>dataset := Some b\<rparr>\<rparr>)
          else if task_type (task c) = ''control''
            then Inr (c\<lparr>task := (task c)\<lparr>env := Some b\<rparr>\<rparr>)
          else Inl (ValueError (''--b is not supported for task '' @ task_type (task c) @ ''.'')))"

text \<open>
  The subscript \<open>config["experiment"]["seed"]\<close> of lines 68 and 73: a missing key raises
  KeyError.
\<close>

definition get_seed :: "config \<Rightarrow> error + int option" where
  "get_seed c =
     (case seed (experiment_sec c) of
        Missing \<Rightarrow> Inl (KeyError ''seed'')
      | Null \<Rightarrow> Inr None
      | Seed s \<Rightarrow> Inr (Some s))"

text \<open>Lines 66-70: the command-line seed.\<close>

definition override_seed :: "config \<Rightarrow> int option \<Rightarrow> error + (config \<times> message list)" where
  "override_seed c cli_seed =
     (case cli_seed of
        None \<Rightarrow> Inr (c, [])
      | Some s \<Rightarrow>
          (case get_seed c of
             Inl e \<Rightarrow> Inl e
           | Inr v \<Rightarrow>
               Inr (c\<lparr>experiment_sec := (experiment_sec c)\<lparr>seed := Seed s\<rparr>\<rparr>,
                    if v \<noteq> None then [OverwritingSeed] else [])))"

text \<open>Lines 72-78: starting seed, run command and the shared timestamp.\<close>

definition stamp :: "world \<Rightarrow> config \<Rightarrow> error + config" where
  "stamp w c =
     (case get_seed c of
        Inl e \<Rightarrow> Inl e
      | Inr v \<Rightarrow>
          Inr (c\<lparr>experiment_sec := (experiment_sec c)
                  \<lparr>starting_seed := v,
                   cmd := Some (join_words (argv w)),
                   timestamp := Some (now w)\<rparr>\<rparr>))"

text \<open>Lines 81-85: the number of task-level workers.\<close>

definition resolve_cores :: "world \<Rightarrow> int \<Rightarrow> int \<Rightarrow> int \<times> message list" where
  "resolve_cores w n_cores_task runs =
     (let n = (if n_cores_task = - 1 then cpu_count w else n_cores_task)
      in if n > runs then (runs, [SettingNCoresTask runs runs]) else (n, []))"

text \<open>Lines 86-91: settings that do not go with a parallel run.\<close>

definition fix_incompatible :: "config \<Rightarrow> int \<Rightarrow> config \<times> message list" where
  "fix_incompatible c n =
     (let (c1, out1) =
            (if verbose (training c) \<and> n > 1
             then (c\<lparr>training := (training c)\<lparr>verbose := False\<rparr>\<rparr>, [SettingVerbose])
             else (c, []));
          (c2, out2) =
            (if n_cores_batch (training c1) \<noteq> 1 \<and> n > 1
             then (c1\<lparr>training := (training c1)\<lparr>n_cores_batch := 1\<rparr>\<rparr>, [SettingNCoresBatch])
             else (c1, []))
      in (c2, out1 @ out2))"

text \<open>
  Lines 94-96: one deep copy per run, then \<open>seed += i\<close> on the i-th copy. Adding an
  integer to a null seed raises TypeError (the message is Python's, without its quote
  characters); a missing key raises KeyError. \<open>range(runs)\<close> is empty for \<open>runs \<le> 0\<close>.
\<close>

fun offset_seeds :: "nat \<Rightarrow> config list \<Rightarrow> error + config list" where
  "offset_seeds i [] = Inr []"
| "offset_seeds i (c # cs) =
     (case seed (experiment_sec c) of
        Missing \<Rightarrow> Inl (KeyError ''seed'')
      | Null \<Rightarrow> Inl (TypeError ''unsupported operand type(s) for +=: NoneType and int'')
      | Seed s \<Rightarrow>
          (case offset_seeds (Suc i) cs of
             Inl e \<Rightarrow> Inl e
           | Inr cs' \<Rightarrow> Inr (c\<lparr>experiment_sec := (experiment_sec c)\<lparr>seed := Seed (s + int i)\<rparr>\<rparr> # cs')))"

definition generate_configs :: "config \<Rightarrow> int \<Rightarrow> error + config list" where
  "generate_configs c runs = offset_seeds 0 (replicate (nat runs) c)"

text \<open>Lines 55-91 in sequence.\<close>

definition prepare ::
  "world \<Rightarrow> config \<Rightarrow> int \<Rightarrow> int \<Rightarrow> int option \<Rightarrow> string option
     \<Rightarrow> error + (config \<times> int \<times> message list)" where
  "prepare w c0 runs n_cores_task cli_seed benchmark =
     (case override_benchmark c0 benchmark of
        Inl e \<Rightarrow> Inl e
      | Inr c1 \<Rightarrow>
          (case override_seed c1 cli_seed of
             Inl e \<Rightarrow> Inl e
           | Inr (c2, out2) \<Rightarrow>
               (case stamp w c2 of
                  Inl e \<Rightarrow> Inl e
                | Inr c3 \<Rightarrow>
                    (let (n, out3) = resolve_cores w n_cores_task runs;
                         (c4, out4) = fix_incompatible c3 n
                     in Inr (c4, n, out2 @ out3 @ out4)))))"

section \<open>main: running the replicates\<close>

text \<open>Lines 105-106 and 110-111: append the row, then report.\<close>

definition record_completion ::
  "int \<Rightarrow> nat \<Rightarrow> dict \<Rightarrow> string \<Rightarrow> state \<Rightarrow> state \<times> error option" where
  "record_completion runs i result path st =
     (let st1 = st\<lparr>files := append_summary result path (files st),
                   aggregated := aggregated st @ [(result, path)]\<rparr>
      in case map_of result ''t'' of
           None \<Rightarrow> (st1, Some (KeyError ''t''))
         | Some t \<Rightarrow> (st1\<lparr>stdout := stdout st1 @ [Completed (i + 1) runs t]\<rparr>, None))"

text \<open>
  Lines 108-111, the serial path. The third component of the loop state is the local
  variable \<open>summary_path\<close>, unbound until the first iteration.
\<close>

fun run_serial ::
  "world \<Rightarrow> int \<Rightarrow> nat \<Rightarrow> config list \<Rightarrow> state \<Rightarrow> string option
     \<Rightarrow> state \<times> (error + string option)" where
  "run_serial w runs i [] st sp = (st, Inr sp)"
| "run_serial w runs i (c # cs) st sp =
     (let st1 = st\<lparr>executed := executed st @ [c]\<rparr>
      in case train_dso w c of
           Inl e \<Rightarrow> (st1, Inl e)
         | Inr (result, path) \<Rightarrow>
             (case record_completion runs i result path st1 of
                (st2, Some e) \<Rightarrow> (st2, Inl e)
              | (st2, None) \<Rightarrow> run_serial w runs (Suc i) cs st2 (Some path)))"

text \<open>
  \<open>pool.imap_unordered(f, xs)\<close> yields the outcome of \<open>f\<close> on every element of \<open>xs\<close>,
  in the order in which the tasks complete (tasks completing at the same instant in
  the order of submission); an exception raised in a worker is raised again in the
  coordinator when that outcome is fetched.
\<close>

definition imap_unordered ::
  "world \<Rightarrow> (config \<Rightarrow> error + (dict \<times> string)) \<Rightarrow> config list
     \<Rightarrow> (config \<times> (error + (dict \<times> string))) list" where
  "imap_unordered w f xs = map (\<lambda>c. (c, f c)) (sort_key (finish w) xs)"

text \<open>
  Lines 103-106, the parallel path. A replicate is logged as executed when the
  coordinator fetches its outcome.
\<close>

fun run_pool ::
  "int \<Rightarrow> nat \<Rightarrow> (config \<times> (error + (dict \<times> string))) list \<Rightarrow> state \<Rightarrow> string option
     \<Rightarrow> state \<times> (error + string option)" where
  "run_pool runs i [] st sp = (st, Inr sp)"
| "run_pool runs i ((c, r) # items) st sp =
     (let st1 = st\<lparr>executed := executed st @ [c]\<rparr>
      in case r of
           Inl e \<Rightarrow> (st1, Inl e)
         | Inr (result, path) \<Rightarrow>
             (case record_completion runs i result path st1 of
                (st2, Some e) \<Rightarrow> (st2, Inl e)
              | (st2, None) \<Rightarrow> run_pool runs (Suc i) items st2 (Some path)))"

definition farm_out ::
  "world \<Rightarrow> int \<Rightarrow> int \<Rightarrow> config list \<Rightarrow> state \<Rightarrow> state \<times> (error + string option)" where
  "farm_out w runs n configs st =
     (if n > 1 then run_pool runs 0 (imap_unordered w (train_dso w) configs) st None
      else run_serial w runs 0 configs st None)"

text \<open>
  Lines 113-120. After the loop of line 95 the name \<open>config\<close> is bound to the last
  generated configuration (to the prepared one when there is none).
\<close>

definition final_config :: "config \<Rightarrow> config list \<Rightarrow> config" where
  "final_config c configs = (case rev configs of [] \<Rightarrow> c | x # _ \<Rightarrow> x)"

definition evaluate_logs :: "world \<Rightarrow> config \<Rightarrow> string option \<Rightarrow> error + unit" where
  "evaluate_logs w c sp =
     (case sp of
        None \<Rightarrow> Inl (UnboundLocalError ''summary_path'')
      | Some p \<Rightarrow>
          (case analyze_log w
                  \<lparr>config_path = path_join (dirname p) ''config.json'',
                   show_count_arg = show_count (postprocess c),
                   show_hof_arg = (case hof (training c) of None \<Rightarrow> False | Some h \<Rightarrow> h > 0),
                   show_pf_arg = save_pareto_front (training c),
                   save_plots_arg = save_plots (postprocess c)\<rparr> of
             Some e \<Rightarrow> Inl e
           | None \<Rightarrow> Inr ()))"

definition initial :: "filesystem \<Rightarrow> state" where
  "initial fs = \<lparr>stdout = [], files = fs, executed = [], aggregated = []\<rparr>"

definition main ::
  "world \<Rightarrow> config \<Rightarrow> int \<Rightarrow> int \<Rightarrow> int option \<Rightarrow> string option \<Rightarrow> filesystem
     \<Rightarrow> state \<times> (error + unit)" where
  "main w c0 runs n_cores_task cli_seed benchmark fs =
     (case prepare w c0 runs n_cores_task cli_seed benchmark of
        Inl e \<Rightarrow> (initial fs, Inl e)
      | Inr (c, n, out) \<Rightarrow>
          (let st1 = (initial fs)\<lparr>stdout := out\<rparr>
           in case generate_configs c runs of
                Inl e \<Rightarrow> (st1, Inl e)
              | Inr configs \<Rightarrow>
                  (let st2 = st1\<lparr>stdout := stdout st1 @ [RunningSeeds runs]\<rparr>
                   in case farm_out w runs n configs st2 of
                        (st3, Inl e) \<Rightarrow> (st3, Inl e)
                      | (st3, Inr sp) \<Rightarrow> (st3, evaluate_logs w (final_config c configs) sp))))"

section \<open>Notions used to state the properties\<close>

text \<open>The order in which the coordinator fetches the replicates' outcomes.\<close>

definition fetch_order :: "world \<Rightarrow> int \<Rightarrow> config list \<Rightarrow> config list" where
  "fetch_order w n configs = (if n > 1 then sort_key (finish w) configs else configs)"

text \<open>The outputs of the replicates fetched before the first one that raises.\<close>

fun succeeded :: "world \<Rightarrow> config list \<Rightarrow> (dict \<times> string) list" where
  "succeeded w [] = []"
| "succeeded w (c # cs) =
     (case train_dso w c of Inl e \<Rightarrow> [] | Inr r \<Rightarrow> r # succeeded w cs)"

fun first_failure :: "world \<Rightarrow> config list \<Rightarrow> error option" where
  "first_failure w [] = None"
| "first_failure w (c # cs) =
     (case train_dso w c of Inl e \<Rightarrow> Some e | Inr r \<Rightarrow> first_failure w cs)"

definition append_rows :: "(dict \<times> string) list \<Rightarrow> filesystem \<Rightarrow> filesystem" where
  "append_rows rs fs = foldl (\<lambda>f r. append_summary (fst r) (snd r) f) fs rs"

text \<open>The replicate's configuration with seed \<open>s\<close>.\<close>

definition with_seed :: "config \<Rightarrow> int \<Rightarrow> config" where
  "with_seed c s = c\<lparr>experiment_sec := (experiment_sec c)\<lparr>seed := Seed s\<rparr>\<rparr>"

section \<open>Example inputs\<close>

definition example_config :: config where
  "example_config =
     \<lparr>task = \<lparr>task_type = ''regression'', dataset = Some ''Nguyen-1'', env = None\<rparr>,
      experiment_sec = \<lparr>seed = Seed 100, starting_seed = None, cmd = None, timestamp = None\<rparr>,
      training = \<lparr>verbose = True, n_cores_batch = 2, hof = Some 100, save_pareto_front = True\<rparr>,
      postprocess = \<lparr>show_count = 5, save_plots = True\<rparr>\<rparr>"

definition example_trained :: "config \<Rightarrow> trained" where
  "example_trained c =
     \<lparr>returned = [(''seed'', (case seed (experiment_sec c) of Seed s \<Rightarrow> PInt s | _ \<Rightarrow> PNone)),
                  (''r'', PFloat 1), (''program'', PObj ''x1'')],
      t_start = 10, t_stop = 15, save_path = ''log/run''\<rparr>"

definition example_world :: world where
  "example_world =
     \<lparr>argv = [''run.py'', ''--runs'', ''3''], now = ''2026-01-01-000000'', cpu_count = 4,
      train = (\<lambda>c. Inr (example_trained c)),
      gym_make = (\<lambda>e. None),
      finish = (\<lambda>c. if seed (experiment_sec c) = Seed 100 then 2 else 1),
      analyze_log = (\<lambda>a. None)\<rparr>"

text \<open>A training routine whose record has no \<open>program\<close> entry.\<close>

definition bare_world :: world where
  "bare_world =
     example_world\<lparr>train := (\<lambda>c. Inr ((example_trained c)\<lparr>returned := [(''r'', PFloat 1)]\<rparr>))\<rparr>"

text \<open>A training routine that raises for the replicate with seed 101.\<close>

definition failing_world :: world where
  "failing_world =
     example_world\<lparr>train := (\<lambda>c. if seed (experiment_sec c) = Seed 101
                                then Inl (TrainingError ''diverged'')
                                else Inr (example_trained c))\<rparr>"

text \<open>A disk without any summary file.\<close>

definition no_files :: filesystem where
  "no_files = Map.empty"

text \<open>The example configuration as lines 72-78 leave it.\<close>

definition example_stamped :: config where
  "example_stamped =
     example_config\<lparr>experiment_sec :=
        \<lparr>seed = Seed 100, starting_seed = Some 100, cmd = Some ''run.py --runs 3'',
         timestamp = Some ''2026-01-01-000000''\<rparr>\<rparr>"

text \<open>A configuration whose seed is null, and the same as lines 72-78 leave it.\<close>

definition seedless_config :: config where
  "seedless_config =
     example_config\<lparr>experiment_sec := (experiment_sec example_config)\<lparr>seed := Null\<rparr>\<rparr>"

definition seedless_stamped :: config where
  "seedless_stamped =
     example_config\<lparr>experiment_sec :=
        \<lparr>seed = Null, starting_seed = None, cmd = Some ''run.py --runs 3'',
         timestamp = Some ''2026-01-01-000000''\<rparr>\<rparr>"

text \<open>A configuration without a \<open>seed\<close> key.\<close>

definition keyless_config :: config where
  "keyless_config =
     example_config\<lparr>experiment_sec := (experiment_sec example_config)\<lparr>seed := Missing\<rparr>\<rparr>"

text \<open>
  A disk on which the summary file of the example exists already: with a header and one
  row of an earlier run, and empty.
\<close>

definition old_sink :: filesystem where
  "old_sink =
     Map.empty(''log/run/summary.csv'' \<mapsto>
       [Header [''seed'', ''r'', ''t''], Data [PInt 7, PFloat 1, PFloat 4]])"

definition empty_sink :: filesystem where
  "empty_sink = Map.empty(''log/run/summary.csv'' \<mapsto> [])"

section \<open>Dictionaries and \<open>train_dso\<close>\<close>

lemma map_of_dict_set_same: "map_of (dict_set k v d) k = Some v"
  by (induction d) auto

lemma map_of_dict_set: "map_of (dict_set k v d) = (map_of d)(k \<mapsto> v)"
  by (induction d) auto

lemma dict_set_keys: "fst ` set (dict_set k v d) = insert k (fst ` set d)"
  using arg_cong[OF map_of_dict_set, of dom k v d] by (simp add: dom_map_of_conv_image_fst)

lemma map_of_filter_other: "k \<noteq> k' \<Longrightarrow> map_of (filter (\<lambda>kv. fst kv \<noteq> k') d) k = map_of d k"
  by (induction d) auto

lemma dict_pop_Inr:
  "dict_pop k d = Inr (v, d') \<Longrightarrow> k \<notin> fst ` set d' \<and> (\<forall>k'. k' \<noteq> k \<longrightarrow> map_of d' k' = map_of d k')"
  by (auto simp: dict_pop_def map_of_filter_other split: option.splits)

lemma dict_pop_Inr_mem: "dict_pop k d = Inr r \<Longrightarrow> k \<in> fst ` set d"
  using map_of_eq_None_iff[of d k] by (auto simp: dict_pop_def split: option.splits)

lemma dict_pop_Inl: "dict_pop k d = Inl e \<Longrightarrow> e = KeyError k \<and> k \<notin> fst ` set d"
  by (auto simp: dict_pop_def map_of_eq_None_iff split: option.splits)

lemma dict_pop_present: "k \<in> fst ` set d \<Longrightarrow> \<exists>v. dict_pop k d = Inr (v, filter (\<lambda>kv. fst kv \<noteq> k) d)"
  by (cases "map_of d k") (auto simp: dict_pop_def map_of_eq_None_iff)

lemma train_dso_Inr:
  assumes "train_dso w c = Inr (result, path)"
  shows "\<exists>tr. train w c = Inr tr \<and> map_of result ''t'' = Some (PFloat (t_stop tr - t_start tr))
              \<and> ''program'' \<notin> fst ` set result \<and> ''program'' \<in> fst ` set (returned tr)
              \<and> path = path_join (save_path tr) ''summary.csv''"
proof -
  from assms obtain tr where tr: "train w c = Inr tr"
    by (auto simp: train_dso_def split: option.splits sum.splits if_splits)
  let ?d = "dict_set ''t'' (PFloat (t_stop tr - t_start tr)) (returned tr)"
  from assms tr obtain v where pop: "dict_pop ''program'' ?d = Inr (v, result)"
    and path: "path = path_join (save_path tr) ''summary.csv''"
    by (auto simp: train_dso_def Let_def split: option.splits sum.splits if_splits)
  from dict_pop_Inr[OF pop] have a: "''program'' \<notin> fst ` set result"
    and b: "map_of result ''t'' = map_of ?d ''t''" by auto
  have "''program'' \<in> fst ` set ?d"
    using pop by (rule dict_pop_Inr_mem)
  then have "''program'' \<in> fst ` set (returned tr)"
    by (simp add: dict_set_keys)
  with tr a b path show ?thesis by (auto simp: map_of_dict_set_same)
qed

lemma train_dso_Inr_exact:
  assumes "train_dso w c = Inr (result, path)"
  shows "\<exists>tr. train w c = Inr tr
            \<and> result = filter (\<lambda>kv. fst kv \<noteq> ''program'')
                          (dict_set ''t'' (PFloat (t_stop tr - t_start tr)) (returned tr))
            \<and> path = path_join (save_path tr) ''summary.csv''"
  using assms
  by (auto simp: train_dso_def dict_pop_def Let_def split: option.splits sum.splits if_splits)

lemma record_completion_ok:
  "map_of result ''t'' = Some t \<Longrightarrow>
   record_completion runs i result path st =
     (st\<lparr>files := append_summary result path (files st),
         aggregated := aggregated st @ [(result, path)],
         stdout := stdout st @ [Completed (i + 1) runs t]\<rparr>, None)"
  by (simp add: record_completion_def Let_def)

lemma run_pool_serial:
  "run_pool runs i (map (\<lambda>c. (c, train_dso w c)) cs) st sp = run_serial w runs i cs st sp"
  by (induction cs arbitrary: i st sp) (auto simp: Let_def split: sum.splits option.splits prod.splits)

lemma farm_out_serial:
  "farm_out w runs n configs st = run_serial w runs 0 (fetch_order w n configs) st None"
  by (simp add: farm_out_def fetch_order_def imap_unordered_def run_pool_serial)

lemma append_rows_Cons: "append_rows (r # rs) fs = append_rows rs (append_summary (fst r) (snd r) fs)"
  by (simp add: append_rows_def)

lemma run_serial_char:
  "run_serial w runs i cs st sp = (st', out) \<Longrightarrow>
     aggregated st' = aggregated st @ succeeded w cs
   \<and> files st' = append_rows (succeeded w cs) (files st)
   \<and> executed st' = executed st @ take (Suc (length (succeeded w cs))) cs
   \<and> out = (case first_failure w cs of
              Some e \<Rightarrow> Inl e
            | None \<Rightarrow> Inr (if cs = [] then sp else Some (snd (last (succeeded w cs)))))"
proof (induction cs arbitrary: i st sp)
  case Nil
  then show ?case by (auto simp: append_rows_def)
next
  case (Cons c cs)
  show ?case
  proof (cases "train_dso w c")
    case (Inl e)
    with Cons.prems show ?thesis by (auto simp: Let_def append_rows_def)
  next
    case (Inr r)
    obtain result path where r: "r = (result, path)" by (cases r)
    from train_dso_Inr[of w c result path] Inr r obtain t where t: "map_of result ''t'' = Some t"
      by auto
    let ?st2 = "st\<lparr>executed := executed st @ [c],
                   files := append_summary result path (files st),
                   aggregated := aggregated st @ [(result, path)],
                   stdout := stdout st @ [Completed (i + 1) runs t]\<rparr>"
    from Cons.prems Inr r t have run: "run_serial w runs (Suc i) cs ?st2 (Some path) = (st', out)"
      by (simp add: Let_def record_completion_ok)
    from Cons.IH[OF run] Inr r show ?thesis
      by (cases cs) (auto simp: append_rows_Cons split: option.splits sum.splits)
  qed
qed

lemma first_failure_None_iff:
  "first_failure w cs = None \<longleftrightarrow> map Inr (succeeded w cs) = map (train_dso w) cs"
  by (induction cs) (auto split: sum.splits)

lemma first_failure_None_length:
  "first_failure w cs = None \<Longrightarrow> length (succeeded w cs) = length cs"
  by (induction cs) (auto split: sum.splits)

lemma first_failure_Some:
  "c \<in> set cs \<Longrightarrow> train_dso w c = Inl e \<Longrightarrow> \<exists>e'. first_failure w cs = Some e'"
  by (induction cs) (auto split: sum.splits)

lemma succeeded_prefix:
  "\<forall>y\<in>set done. \<not> isl (train_dso w y) \<Longrightarrow> train_dso w x = Inl e \<Longrightarrow>
   map Inr (succeeded w (done @ x # rest)) = map (train_dso w) done
   \<and> first_failure w (done @ x # rest) = Some e"
  by (induction "done") (auto split: sum.splits)

section \<open>The prepared configuration and the seed plan\<close>

lemma prepare_Inr:
  assumes "prepare w c0 runs n cli b = Inr (c, n', out)"
  shows "\<exists>c1 c2 out2 c3. override_benchmark c0 b = Inr c1
            \<and> override_seed c1 cli = Inr (c2, out2)
            \<and> stamp w c2 = Inr c3
            \<and> n' = fst (resolve_cores w n runs)
            \<and> c = fst (fix_incompatible c3 n')
            \<and> out = out2 @ snd (resolve_cores w n runs) @ snd (fix_incompatible c3 n')"
  using assms by (auto simp: prepare_def split: sum.splits prod.splits)

lemma prepare_benchmark_Inl:
  "override_benchmark c0 b = Inl e \<Longrightarrow> prepare w c0 runs n cli b = Inl e"
  by (simp add: prepare_def)

lemma fix_incompatible_training:
  "training (fst (fix_incompatible c n)) =
     (if 1 < n then (training c)\<lparr>verbose := False, n_cores_batch := 1\<rparr> else training c)"
  by (auto simp: fix_incompatible_def)

lemma fix_incompatible_frame:
  "task (fst (fix_incompatible c n)) = task c"
  "experiment_sec (fst (fix_incompatible c n)) = experiment_sec c"
  "postprocess (fst (fix_incompatible c n)) = postprocess c"
  by (auto simp: fix_incompatible_def)

lemma fix_incompatible_out:
  "snd (fix_incompatible c n) =
     (if verbose (training c) \<and> 1 < n then [SettingVerbose] else [])
     @ (if n_cores_batch (training c) \<noteq> 1 \<and> 1 < n then [SettingNCoresBatch] else [])"
  by (auto simp: fix_incompatible_def)

lemma override_seed_frame:
  assumes "override_seed c cli = Inr (c2, out2)"
  shows "task c2 = task c" "training c2 = training c" "postprocess c2 = postprocess c"
    "seed (experiment_sec c2) = (case cli of None \<Rightarrow> seed (experiment_sec c) | Some s \<Rightarrow> Seed s)"
    "set out2 \<subseteq> {OverwritingSeed}"
  using assms by (auto simp: override_seed_def split: option.splits sum.splits if_splits)

lemma stamp_frame:
  assumes "stamp w c = Inr c3"
  shows "task c3 = task c" "training c3 = training c" "postprocess c3 = postprocess c"
    "seed (experiment_sec c3) = seed (experiment_sec c)" "seed (experiment_sec c) \<noteq> Missing"
  using assms by (auto simp: stamp_def get_seed_def split: sum.splits seed_entry.splits)

lemma override_benchmark_frame:
  "override_benchmark c b = Inr c1 \<Longrightarrow>
     training c1 = training c \<and> experiment_sec c1 = experiment_sec c \<and> postprocess c1 = postprocess c
     \<and> task_type (task c1) = task_type (task c)"
  by (auto simp: override_benchmark_def split: option.splits if_splits)

lemma resolve_cores_out: "set (snd (resolve_cores w n runs)) \<subseteq> {SettingNCoresTask runs runs}"
  by (auto simp: resolve_cores_def Let_def)

lemma prepare_training:
  assumes "prepare w c0 runs n cli b = Inr (c, n', out)"
  shows "training c = (if 1 < n' then (training c0)\<lparr>verbose := False, n_cores_batch := 1\<rparr> else training c0)"
proof -
  from prepare_Inr[OF assms] obtain c1 c2 out2 c3 where c1: "override_benchmark c0 b = Inr c1"
    and c2: "override_seed c1 cli = Inr (c2, out2)" and c3: "stamp w c2 = Inr c3"
    and c: "c = fst (fix_incompatible c3 n')" by blast
  from override_benchmark_frame[OF c1] have "training c1 = training c0" by simp
  with c show ?thesis
    by (simp add: fix_incompatible_training stamp_frame[OF c3] override_seed_frame[OF c2])
qed

lemma prepare_out:
  assumes "prepare w c0 runs n cli b = Inr (c, n', out)"
  shows "(SettingVerbose \<in> set out \<longleftrightarrow> verbose (training c0) \<and> 1 < n')
       \<and> (SettingNCoresBatch \<in> set out \<longleftrightarrow> n_cores_batch (training c0) \<noteq> 1 \<and> 1 < n')"
proof -
  from prepare_Inr[OF assms] obtain c1 c2 out2 c3 where c1: "override_benchmark c0 b = Inr c1"
    and c2: "override_seed c1 cli = Inr (c2, out2)" and c3: "stamp w c2 = Inr c3"
    and out: "out = out2 @ snd (resolve_cores w n runs) @ snd (fix_incompatible c3 n')" by blast
  from override_benchmark_frame[OF c1] have tr: "training c1 = training c0" by simp
  have a: "SettingVerbose \<notin> set out2" "SettingNCoresBatch \<notin> set out2"
    using override_seed_frame(5)[OF c2] by auto
  have b: "SettingVerbose \<notin> set (snd (resolve_cores w n runs))" "SettingNCoresBatch \<notin> set (snd (resolve_cores w n runs))"
    using resolve_cores_out[of w n runs] by auto
  show ?thesis using a b tr
    by (simp add: out fix_incompatible_out stamp_frame[OF c3] override_seed_frame[OF c2])
qed

lemma prepare_seed:
  assumes "prepare w c0 runs n cli b = Inr (c, n', out)"
  shows "seed (experiment_sec c) = (case cli of None \<Rightarrow> seed (experiment_sec c0) | Some s \<Rightarrow> Seed s)"
proof -
  from prepare_Inr[OF assms] obtain c1 c2 out2 c3 where c1: "override_benchmark c0 b = Inr c1"
    and c2: "override_seed c1 cli = Inr (c2, out2)" and c3: "stamp w c2 = Inr c3"
    and c: "c = fst (fix_incompatible c3 n')" by blast
  from override_benchmark_frame[OF c1] have "experiment_sec c1 = experiment_sec c0" by simp
  with c show ?thesis
    by (simp add: fix_incompatible_frame stamp_frame[OF c3] override_seed_frame[OF c2] split: option.splits)
qed

lemma prepare_task:
  assumes "prepare w c0 runs n cli b = Inr (c, n', out)"
  shows "override_benchmark c0 b = Inr (c0\<lparr>task := task c\<rparr>)"
proof -
  from prepare_Inr[OF assms] obtain c1 c2 out2 c3 where c1: "override_benchmark c0 b = Inr c1"
    and c2: "override_seed c1 cli = Inr (c2, out2)" and c3: "stamp w c2 = Inr c3"
    and c: "c = fst (fix_incompatible c3 n')" by blast
  from c have "task c = task c1"
    by (simp add: fix_incompatible_frame stamp_frame[OF c3] override_seed_frame[OF c2])
  moreover from c1 have "c1 = c0\<lparr>task := task c1\<rparr>"
    by (auto simp: override_benchmark_def split: option.splits if_splits)
  ultimately show ?thesis using c1 by simp
qed

lemma prepare_missing_seed:
  assumes "override_benchmark c0 b = Inr c1" and "seed (experiment_sec c0) = Missing"
  shows "prepare w c0 runs n cli b = Inl (KeyError ''seed'')"
proof -
  from override_benchmark_frame[OF assms(1)] assms(2)
  have m: "seed (experiment_sec c1) = Missing" by simp
  show ?thesis
  proof (cases cli)
    case None
    with m assms(1) show ?thesis
      by (simp add: prepare_def override_seed_def stamp_def get_seed_def)
  next
    case (Some s)
    with m assms(1) show ?thesis
      by (simp add: prepare_def override_seed_def get_seed_def)
  qed
qed

lemma prepare_null_seed:
  assumes "override_benchmark c0 b = Inr c1" and "seed (experiment_sec c0) = Null"
  shows "\<exists>c. prepare w c0 runs n None b
            = Inr (c, fst (resolve_cores w n runs),
                   snd (resolve_cores w n runs) @ snd (fix_incompatible c1 (fst (resolve_cores w n runs))))
           \<and> seed (experiment_sec c) = Null"
proof -
  from override_benchmark_frame[OF assms(1)] assms(2)
  have m: "seed (experiment_sec c1) = Null" by simp
  let ?c3 = "c1\<lparr>experiment_sec := (experiment_sec c1)
                  \<lparr>starting_seed := None, cmd := Some (join_words (argv w)), timestamp := Some (now w)\<rparr>\<rparr>"
  have st: "stamp w c1 = Inr ?c3" using m by (simp add: stamp_def get_seed_def)
  have o: "snd (fix_incompatible ?c3 (fst (resolve_cores w n runs)))
         = snd (fix_incompatible c1 (fst (resolve_cores w n runs)))"
    by (simp add: fix_incompatible_out)
  have p: "prepare w c0 runs n None b
         = Inr (fst (fix_incompatible ?c3 (fst (resolve_cores w n runs))), fst (resolve_cores w n runs),
                snd (resolve_cores w n runs) @ snd (fix_incompatible ?c3 (fst (resolve_cores w n runs))))"
    using assms(1) st by (simp add: prepare_def override_seed_def split: prod.splits)
  have "seed (experiment_sec (fst (fix_incompatible ?c3 (fst (resolve_cores w n runs))))) = Null"
    using m by (simp add: fix_incompatible_frame)
  with p o show ?thesis by simp
qed

lemma offset_seeds_frame:
  "offset_seeds i cs = Inr cs' \<Longrightarrow>
     length cs' = length cs \<and>
     (\<forall>k<length cs. task (cs' ! k) = task (cs ! k) \<and> training (cs' ! k) = training (cs ! k)
                    \<and> postprocess (cs' ! k) = postprocess (cs ! k))"
proof (induction cs arbitrary: i cs')
  case Nil then show ?case by simp
next
  case (Cons c cs)
  then show ?case
    by (auto split: seed_entry.splits sum.splits simp: nth_Cons split: nat.splits)
qed

lemma generate_configs_frame:
  assumes "generate_configs c runs = Inr cfgs" and "x \<in> set cfgs"
  shows "task x = task c \<and> training x = training c \<and> postprocess x = postprocess c"
proof -
  from assms(1) have g: "offset_seeds 0 (replicate (nat runs) c) = Inr cfgs"
    by (simp add: generate_configs_def)
  from assms(2) obtain k where k: "k < length cfgs" "x = cfgs ! k"
    by (auto simp: in_set_conv_nth)
  from offset_seeds_frame[OF g] k show ?thesis by simp
qed

lemma offset_seeds_replicate:
  "seed (experiment_sec c) = Seed s \<Longrightarrow>
   offset_seeds i (replicate k c) =
     Inr (map (\<lambda>j. c\<lparr>experiment_sec := (experiment_sec c)\<lparr>seed := Seed (s + int j)\<rparr>\<rparr>) [i..<i + k])"
proof (induction k arbitrary: i)
  case 0 then show ?case by simp
next
  case (Suc k)
  have "[i..<i + Suc k] = i # [Suc i..<Suc i + k]"
    by (simp add: upt_conv_Cons)
  with Suc show ?case by simp
qed

lemma generate_configs_Seed:
  assumes "seed (experiment_sec c) = Seed s"
  shows "generate_configs c runs =
     Inr (map (\<lambda>i. c\<lparr>experiment_sec := (experiment_sec c)\<lparr>seed := Seed (s + int i)\<rparr>\<rparr>) [0..<nat runs])"
  using offset_seeds_replicate[OF assms, of 0 "nat runs"] by (simp add: generate_configs_def)

lemma generate_configs_Null:
  assumes "seed (experiment_sec c) = Null" and "1 \<le> runs"
  shows "generate_configs c runs = Inl (TypeError ''unsupported operand type(s) for +=: NoneType and int'')"
proof -
  from assms(2) obtain k where "nat runs = Suc k" by (cases "nat runs") auto
  with assms(1) show ?thesis by (simp add: generate_configs_def)
qed

lemma generate_configs_Missing:
  assumes "seed (experiment_sec c) = Missing" and "1 \<le> runs"
  shows "generate_configs c runs = Inl (KeyError ''seed'')"
proof -
  from assms(2) obtain k where "nat runs = Suc k" by (cases "nat runs") auto
  with assms(1) show ?thesis by (simp add: generate_configs_def)
qed

lemma generate_configs_length:
  assumes "generate_configs c runs = Inr cfgs"
  shows "length cfgs = nat runs"
  using offset_seeds_frame[of 0 "replicate (nat runs) c" cfgs] assms
  by (simp add: generate_configs_def)

lemma generate_configs_distinct:
  assumes "generate_configs c runs = Inr cfgs"
  shows "distinct cfgs"
proof (cases "1 \<le> runs")
  case False
  with generate_configs_length[OF assms] show ?thesis by simp
next
  case True
  show ?thesis
  proof (cases "seed (experiment_sec c)")
    case Missing
    from generate_configs_Missing[OF Missing True] assms show ?thesis by simp
  next
    case Null
    from generate_configs_Null[OF Null True] assms show ?thesis by simp
  next
    case (Seed s)
    have "inj_on (\<lambda>i. c\<lparr>experiment_sec := (experiment_sec c)\<lparr>seed := Seed (s + int i)\<rparr>\<rparr>) (set [0..<nat runs])"
    proof (rule inj_onI)
      fix i j
      assume "c\<lparr>experiment_sec := (experiment_sec c)\<lparr>seed := Seed (s + int i)\<rparr>\<rparr>
            = c\<lparr>experiment_sec := (experiment_sec c)\<lparr>seed := Seed (s + int j)\<rparr>\<rparr>"
      then have "seed (experiment_sec (c\<lparr>experiment_sec := (experiment_sec c)\<lparr>seed := Seed (s + int i)\<rparr>\<rparr>))
               = seed (experiment_sec (c\<lparr>experiment_sec := (experiment_sec c)\<lparr>seed := Seed (s + int j)\<rparr>\<rparr>))"
        by (rule arg_cong)
      then show "i = j" by simp
    qed
    with generate_configs_Seed[OF Seed, of runs] assms show ?thesis
      by (simp add: distinct_map)
  qed
qed

section \<open>The summary sink and the run as a whole\<close>

lemma append_summary_same:
  "append_summary r p fs p =
     (case fs p of None \<Rightarrow> Some [Header (map fst r), data_row r]
                 | Some rows \<Rightarrow> Some (rows @ [data_row r]))"
  by (simp add: append_summary_def to_csv_def path_exists_def data_row_def split: option.splits)

lemma append_all_existing:
  "fs p = Some old \<Longrightarrow> append_all rs p fs p = Some (old @ map data_row rs)"
proof (induction rs arbitrary: fs old)
  case Nil then show ?case by (simp add: append_all_def)
next
  case (Cons r rs)
  have "append_summary r p fs p = Some (old @ [data_row r])"
    using Cons.prems by (simp add: append_summary_same)
  from Cons.IH[of "append_summary r p fs" "old @ [data_row r]", OF this]
  show ?case by (simp add: append_all_def)
qed

lemma append_all_fresh:
  assumes "fs p = None"
  shows "append_all (r # rs) p fs p = Some (Header (map fst r) # map data_row (r # rs))"
proof -
  have "append_summary r p fs p = Some [Header (map fst r), data_row r]"
    using assms by (simp add: append_summary_same)
  from append_all_existing[of "append_summary r p fs" p "[Header (map fst r), data_row r]" rs, OF this]
  show ?thesis by (simp add: append_all_def)
qed

lemma header_rows_data: "header_rows (map data_row rs) = 0"
  by (induction rs) (auto simp: header_rows_def data_row_def)

lemma data_rows_data: "data_rows (map data_row rs) = length rs"
  by (induction rs) (auto simp: data_rows_def data_row_def)

lemma header_rows_append: "header_rows (xs @ ys) = header_rows xs + header_rows ys"
  by (simp add: header_rows_def)

lemma data_rows_append: "data_rows (xs @ ys) = data_rows xs + data_rows ys"
  by (simp add: data_rows_def)

lemma append_rows_one_path:
  "\<forall>x\<in>set rs. snd x = p \<Longrightarrow> append_rows rs fs = append_all (map fst rs) p fs"
  by (induction rs arbitrary: fs) (auto simp: append_rows_def append_all_def)

lemma append_rows_content:
  "append_rows rs fs p =
     (case fs p of
        Some old \<Rightarrow> Some (old @ map (\<lambda>y. Data (map snd (fst y))) (filter (\<lambda>x. snd x = p) rs))
      | None \<Rightarrow>
          (case filter (\<lambda>x. snd x = p) rs of
             [] \<Rightarrow> None
           | x # xs \<Rightarrow> Some (Header (map fst (fst x)) # map (\<lambda>y. Data (map snd (fst y))) (x # xs))))"
proof (induction rs arbitrary: fs)
  case Nil
  then show ?case by (simp add: append_rows_def split: option.splits)
next
  case (Cons r rs)
  show ?case
  proof (cases "snd r = p")
    case True
    then show ?thesis
      by (cases "fs p")
         (simp_all add: append_rows_Cons Cons.IH append_summary_same data_row_def split: list.splits)
  next
    case False
    then have "append_summary (fst r) (snd r) fs p = fs p"
      by (simp add: append_summary_def to_csv_def)
    with False show ?thesis
      by (cases "fs p") (simp_all add: append_rows_Cons Cons.IH)
  qed
qed

lemma main_structure:
  assumes "prepare w c0 runs n cli b = Inr (c, n', out)"
    and "generate_configs c runs = Inr cfgs"
  shows "main w c0 runs n cli b fs =
     (case run_serial w runs 0 (fetch_order w n' cfgs)
             ((initial fs)\<lparr>stdout := out @ [RunningSeeds runs]\<rparr>) None of
        (st3, Inl e) \<Rightarrow> (st3, Inl e)
      | (st3, Inr sp) \<Rightarrow> (st3, evaluate_logs w (final_config c cfgs) sp))"
  using assms by (simp add: main_def Let_def farm_out_serial initial_def)

lemma main_char:
  assumes prep: "prepare w c0 runs n cli b = Inr (c, n', out)"
    and gen: "generate_configs c runs = Inr cfgs"
  shows "aggregated (fst (main w c0 runs n cli b fs)) = succeeded w (fetch_order w n' cfgs)
       \<and> files (fst (main w c0 runs n cli b fs)) = append_rows (succeeded w (fetch_order w n' cfgs)) fs
       \<and> executed (fst (main w c0 runs n cli b fs))
           = take (Suc (length (succeeded w (fetch_order w n' cfgs)))) (fetch_order w n' cfgs)
       \<and> snd (main w c0 runs n cli b fs)
           = (case first_failure w (fetch_order w n' cfgs) of
                Some e \<Rightarrow> Inl e
              | None \<Rightarrow> evaluate_logs w (final_config c cfgs)
                          (if fetch_order w n' cfgs = [] then None
                           else Some (snd (last (succeeded w (fetch_order w n' cfgs))))))"
proof -
  let ?order = "fetch_order w n' cfgs"
  let ?st = "(initial fs)\<lparr>stdout := out @ [RunningSeeds runs]\<rparr>"
  obtain st3 r where run: "run_serial w runs 0 ?order ?st None = (st3, r)"
    by (cases "run_serial w runs 0 ?order ?st None")
  from run_serial_char[OF run]
  have a: "aggregated st3 = succeeded w ?order"
    and f: "files st3 = append_rows (succeeded w ?order) fs"
    and e: "executed st3 = take (Suc (length (succeeded w ?order))) ?order"
    and r: "r = (case first_failure w ?order of
                   Some e \<Rightarrow> Inl e
                 | None \<Rightarrow> Inr (if ?order = [] then None
                                else Some (snd (last (succeeded w ?order)))))"
    by (simp_all add: initial_def)
  have m: "main w c0 runs n cli b fs =
      (case r of Inl e \<Rightarrow> (st3, Inl e)
               | Inr sp \<Rightarrow> (st3, evaluate_logs w (final_config c cfgs) sp))"
    by (simp add: main_structure[OF prep gen] run split: sum.splits)
  show ?thesis
    using a f e by (auto simp: m r split: option.splits)
qed

lemma main_failed_early:
  "prepare w c0 runs n cli b = Inl e \<Longrightarrow> main w c0 runs n cli b fs = (initial fs, Inl e)"
  "prepare w c0 runs n cli b = Inr (c, n', out) \<Longrightarrow> generate_configs c runs = Inl e \<Longrightarrow>
     main w c0 runs n cli b fs = ((initial fs)\<lparr>stdout := out\<rparr>, Inl e)"
  by (simp_all add: main_def)

lemma main_success:
  assumes "snd (main w c0 runs n cli b fs) = Inr ()"
  shows "\<exists>c n' out cfgs. prepare w c0 runs n cli b = Inr (c, n', out) \<and> generate_configs c runs = Inr cfgs"
  using assms by (auto simp: main_def Let_def split: sum.splits prod.splits)

lemma length_fetch_order: "length (fetch_order w n cfgs) = length cfgs"
  by (simp add: fetch_order_def)

lemma mset_fetch_order: "mset (fetch_order w n cfgs) = mset cfgs"
  by (simp add: fetch_order_def)

lemma evaluate_logs_Inr: "evaluate_logs w c sp = Inr u \<Longrightarrow> sp \<noteq> None"
  by (auto simp: evaluate_logs_def split: option.splits)

lemma main_success_char:
  assumes ok: "snd (main w c0 runs n cli b fs) = Inr ()"
    and prep: "prepare w c0 runs n cli b = Inr (c, n', out)"
    and gen: "generate_configs c runs = Inr cfgs"
  shows "executed (fst (main w c0 runs n cli b fs)) = fetch_order w n' cfgs
       \<and> map Inr (aggregated (fst (main w c0 runs n cli b fs))) = map (train_dso w) (fetch_order w n' cfgs)
       \<and> files (fst (main w c0 runs n cli b fs)) = append_rows (aggregated (fst (main w c0 runs n cli b fs))) fs
       \<and> 1 \<le> runs"
proof -
  let ?order = "fetch_order w n' cfgs"
  note mc = main_char[OF prep gen, of fs]
  from mc ok have ff: "first_failure w ?order = None"
    by (auto split: option.splits)
  from mc ok ff have ne: "?order \<noteq> []"
    by (auto simp: evaluate_logs_def split: if_splits)
  from ff have len: "length (succeeded w ?order) = length ?order"
    by (rule first_failure_None_length)
  from ff have m: "map Inr (succeeded w ?order) = map (train_dso w) ?order"
    by (simp add: first_failure_None_iff)
  from ne have "0 < length cfgs" using length_fetch_order[of w n' cfgs] by auto
  with generate_configs_length[OF gen] have "1 \<le> runs" by simp
  with mc len m show ?thesis by simp
qed

section \<open>Properties of the launcher\<close>

lemmas run_defs = main_def prepare_def override_benchmark_def get_seed_def override_seed_def stamp_def
  resolve_cores_def fix_incompatible_def generate_configs_def farm_out_def imap_unordered_def
  record_completion_def append_summary_def to_csv_def path_exists_def train_dso_def dict_pop_def
  path_join_def dirname_def evaluate_logs_def final_config_def initial_def Let_def

lemmas example_defs = example_config_def example_world_def example_trained_def bare_world_def
  failing_world_def seedless_config_def no_files_def example_stamped_def
  seedless_stamped_def keyless_config_def old_sink_def empty_sink_def

text \<open>
  C1. Seed plan (lines 94-96). For every replicate count \<open>runs\<close> and every integer base
  seed \<open>s\<close>, \<open>generate_configs\<close> succeeds with exactly \<open>nat runs\<close> configurations (that is
  \<open>runs\<close> of them for \<open>runs \<ge> 0\<close>); their seeds are \<open>s, s + 1, ..., s + runs - 1\<close> in this
  order, and the i-th configuration is the base configuration with nothing but its seed
  replaced by \<open>s + i\<close>.
\<close>
theorem seed_plan_offsets:
  assumes "seed (experiment_sec c) = Seed s"
  shows "\<exists>cfgs. generate_configs c runs = Inr cfgs
           \<and> length cfgs = nat runs
           \<and> map (\<lambda>x. seed (experiment_sec x)) cfgs = map (\<lambda>i. Seed (s + int i)) [0..<nat runs]
           \<and> (\<forall>i<nat runs. cfgs ! i = c\<lparr>experiment_sec := (experiment_sec c)\<lparr>seed := Seed (s + int i)\<rparr>\<rparr>)"
  using generate_configs_Seed[OF assms, of runs] by (simp add: comp_def)

theorem seed_plan_offsets_witness:
  "seed (experiment_sec example_config) = Seed 100
   \<and> (\<exists>cfgs. generate_configs example_config 3 = Inr cfgs \<and> length cfgs = 3
         \<and> map (\<lambda>x. seed (experiment_sec x)) cfgs = [Seed 100, Seed 101, Seed 102])"
proof -
  have h: "seed (experiment_sec example_config) = Seed 100"
    by (simp add: example_config_def)
  have u: "[0..<3] = [0, 1, 2::nat]" by code_simp
  show ?thesis using h seed_plan_offsets[OF h, of 3] by (auto simp: u)
qed

text \<open>
  C4. Worker-count resolution (lines 81-85), on a host with at least one CPU. A request
  of \<open>-1\<close> resolves to \<open>min (cpu_count) runs\<close>; a request larger than \<open>runs\<close> resolves to
  \<open>runs\<close> and prints the warning; the resolved count never exceeds \<open>runs\<close>; and it is
  this count, with the warning on the console, that \<open>prepare\<close> hands on.
\<close>
theorem resolve_worker_count:
  assumes "1 \<le> cpu_count w"
  shows "fst (resolve_cores w (- 1) runs) = min (cpu_count w) runs
       \<and> (runs < n \<longrightarrow> resolve_cores w n runs = (runs, [SettingNCoresTask runs runs]))
       \<and> fst (resolve_cores w n runs) \<le> runs
       \<and> (\<forall>c n' out. prepare w c0 runs n cli b = Inr (c, n', out) \<longrightarrow>
             n' = fst (resolve_cores w n runs) \<and> set (snd (resolve_cores w n runs)) \<subseteq> set out)"
proof -
  have "\<forall>c n' out. prepare w c0 runs n cli b = Inr (c, n', out) \<longrightarrow>
             n' = fst (resolve_cores w n runs) \<and> set (snd (resolve_cores w n runs)) \<subseteq> set out"
    by (auto dest!: prepare_Inr)
  moreover have "fst (resolve_cores w (- 1) runs) = min (cpu_count w) runs"
    by (auto simp: resolve_cores_def Let_def)
  moreover have "runs < n \<longrightarrow> resolve_cores w n runs = (runs, [SettingNCoresTask runs runs])"
    using assms by (auto simp: resolve_cores_def Let_def)
  moreover have "fst (resolve_cores w n runs) \<le> runs"
    by (auto simp: resolve_cores_def Let_def)
  ultimately show ?thesis by blast
qed

theorem resolve_worker_count_witness:
  "1 \<le> cpu_count example_world
   \<and> fst (resolve_cores example_world (- 1) 3) = 3
   \<and> resolve_cores example_world 8 3 = (3, [SettingNCoresTask 3 3])
   \<and> prepare example_world example_config 3 8 None None
       = Inr (fst (fix_incompatible example_stamped 3), 3,
              [SettingNCoresTask 3 3, SettingVerbose, SettingNCoresBatch])"
proof -
  have h: "1 \<le> cpu_count example_world" by (simp add: example_world_def)
  have p: "prepare example_world example_config 3 8 None None
       = Inr (fst (fix_incompatible example_stamped 3), 3,
              [SettingNCoresTask 3 3, SettingVerbose, SettingNCoresBatch])"
    by (simp add: run_defs example_defs)
  have c: "cpu_count example_world = 4" by (simp add: example_world_def)
  show ?thesis
    using h p resolve_worker_count[OF h, of 3 8 example_config None None]
          resolve_worker_count[OF h, of 3 "- 1" example_config None None]
    by (simp add: c)
qed

text \<open>
  C5. Benchmark override (lines 55-64). For task family \<open>regression\<close> the override
  replaces the \<open>dataset\<close> entry of the task and nothing else; for \<open>control\<close> it replaces
  the \<open>env\<close> entry and nothing else; for any other family the run ends with the
  ValueError, in the initial state: nothing executed, nothing aggregated, no file
  touched. Every generated configuration carries the task section of the override.
\<close>
theorem benchmark_override_routing:
  "(task_type (task c) = ''regression'' \<longrightarrow>
      override_benchmark c (Some bm) = Inr (c\<lparr>task := (task c)\<lparr>dataset := Some bm\<rparr>\<rparr>))
 \<and> (task_type (task c) = ''control'' \<longrightarrow>
      override_benchmark c (Some bm) = Inr (c\<lparr>task := (task c)\<lparr>env := Some bm\<rparr>\<rparr>))
 \<and> (task_type (task c) \<noteq> ''regression'' \<and> task_type (task c) \<noteq> ''control'' \<longrightarrow>
      main w c runs n cli (Some bm) fs
        = (initial fs, Inl (ValueError (''--b is not supported for task '' @ task_type (task c) @ ''.'')))
      \<and> executed (initial fs) = [] \<and> aggregated (initial fs) = [] \<and> files (initial fs) = fs)
 \<and> (\<forall>c' n' out cfgs. prepare w c runs n cli (Some bm) = Inr (c', n', out)
        \<and> generate_configs c' runs = Inr cfgs \<longrightarrow>
        (\<forall>x\<in>set cfgs. override_benchmark c (Some bm) = Inr (c\<lparr>task := task x\<rparr>)))"
proof -
  have a: "task_type (task c) \<noteq> ''regression'' \<and> task_type (task c) \<noteq> ''control'' \<longrightarrow>
      main w c runs n cli (Some bm) fs
        = (initial fs, Inl (ValueError (''--b is not supported for task '' @ task_type (task c) @ ''.'')))"
    by (simp add: main_def prepare_def override_benchmark_def)
  have b: "\<forall>c' n' out cfgs. prepare w c runs n cli (Some bm) = Inr (c', n', out)
        \<and> generate_configs c' runs = Inr cfgs \<longrightarrow>
        (\<forall>x\<in>set cfgs. override_benchmark c (Some bm) = Inr (c\<lparr>task := task x\<rparr>))"
    using prepare_task generate_configs_frame by metis
  show ?thesis using a b by (simp add: override_benchmark_def initial_def)
qed

theorem benchmark_override_routing_witness:
  "override_benchmark example_config (Some ''Nguyen-5'')
     = Inr (example_config\<lparr>task := \<lparr>task_type = ''regression'', dataset = Some ''Nguyen-5'', env = None\<rparr>\<rparr>)
   \<and> override_benchmark (example_config\<lparr>task := (task example_config)\<lparr>task_type := ''control''\<rparr>\<rparr>)
         (Some ''CartPole-v0'')
     = Inr (example_config\<lparr>task := \<lparr>task_type = ''control'', dataset = Some ''Nguyen-1'',
                                      env = Some ''CartPole-v0''\<rparr>\<rparr>)
   \<and> main example_world (example_config\<lparr>task := (task example_config)\<lparr>task_type := ''binding''\<rparr>\<rparr>)
            3 1 None (Some ''Nguyen-5'') no_files
      = (initial no_files, Inl (ValueError ''--b is not supported for task binding.''))
   \<and> prepare example_world example_config 1 1 None (Some ''Nguyen-5'')
      = Inr (example_stamped\<lparr>task := (task example_stamped)\<lparr>dataset := Some ''Nguyen-5''\<rparr>\<rparr>,
             1, [])
   \<and> generate_configs
        (example_stamped\<lparr>task := (task example_stamped)\<lparr>dataset := Some ''Nguyen-5''\<rparr>\<rparr>) 1
      = Inr [example_stamped\<lparr>task := (task example_stamped)\<lparr>dataset := Some ''Nguyen-5''\<rparr>\<rparr>]
   \<and> task (example_stamped\<lparr>task := (task example_stamped)\<lparr>dataset := Some ''Nguyen-5''\<rparr>\<rparr>)
      = \<lparr>task_type = ''regression'', dataset = Some ''Nguyen-5'', env = None\<rparr>"
proof -
  let ?c = "example_stamped\<lparr>task := (task example_stamped)\<lparr>dataset := Some ''Nguyen-5''\<rparr>\<rparr>"
  have p: "prepare example_world example_config 1 1 None (Some ''Nguyen-5'') = Inr (?c, 1, [])"
    by (simp add: run_defs example_defs)
  have g: "generate_configs ?c 1 = Inr [?c]"
    by (simp add: run_defs example_defs)
  have t: "task ?c = \<lparr>task_type = ''regression'', dataset = Some ''Nguyen-5'', env = None\<rparr>"
    by (simp add: run_defs example_defs)
  have a: "override_benchmark example_config (Some ''Nguyen-5'')
     = Inr (example_config\<lparr>task := \<lparr>task_type = ''regression'', dataset = Some ''Nguyen-5'', env = None\<rparr>\<rparr>)"
    using benchmark_override_routing[of example_config "''Nguyen-5''" example_world 1 1 None no_files] p g
    by (simp add: example_config_def)
  have b: "override_benchmark (example_config\<lparr>task := (task example_config)\<lparr>task_type := ''control''\<rparr>\<rparr>)
         (Some ''CartPole-v0'')
     = Inr (example_config\<lparr>task := \<lparr>task_type = ''control'', dataset = Some ''Nguyen-1'',
                                      env = Some ''CartPole-v0''\<rparr>\<rparr>)"
    using benchmark_override_routing[of "example_config\<lparr>task := (task example_config)\<lparr>task_type := ''control''\<rparr>\<rparr>"
           "''CartPole-v0''" example_world 3 1 None no_files]
    by (simp add: example_config_def)
  have c: "main example_world (example_config\<lparr>task := (task example_config)\<lparr>task_type := ''binding''\<rparr>\<rparr>)
            3 1 None (Some ''Nguyen-5'') no_files
      = (initial no_files, Inl (ValueError ''--b is not supported for task binding.''))"
    using benchmark_override_routing[of "example_config\<lparr>task := (task example_config)\<lparr>task_type := ''binding''\<rparr>\<rparr>"
           "''Nguyen-5''" example_world 3 1 None no_files]
    by (simp add: example_config_def)
  show ?thesis using a b c p g t by blast
qed

lemma train_dso_no_gym:
  assumes "train w c = Inr tr"
    and "task_type (task c) = ''control'' \<and> 1 < n_cores_batch (training c) \<longrightarrow> gym_make w (env (task c)) = None"
  shows "train_dso w c =
     (case dict_pop ''program'' (dict_set ''t'' (PFloat (t_stop tr - t_start tr)) (returned tr)) of
        Inl e \<Rightarrow> Inl e
      | Inr r \<Rightarrow> Inr (snd r, path_join (save_path tr) ''summary.csv''))"
  using assms by (auto simp: train_dso_def Let_def split: sum.splits option.splits prod.splits)

text \<open>
  C6, as the code has it. When the training call returns a record and the environment
  preconditioning does not raise: if the record has a \<open>program\<close> entry, \<open>train_dso\<close>
  returns a record whose entry \<open>t\<close> is the clock difference around the training call,
  that has no \<open>program\<close> entry, and whose other entries are those of the training record;
  if the record has no \<open>program\<close> entry, \<open>train_dso\<close> raises KeyError.
\<close>
theorem train_dso_result_fields:
  assumes "train w c = Inr tr"
    and "task_type (task c) = ''control'' \<and> 1 < n_cores_batch (training c) \<longrightarrow> gym_make w (env (task c)) = None"
  shows "(''program'' \<in> fst ` set (returned tr) \<longrightarrow>
            (\<exists>result. train_dso w c = Inr (result, path_join (save_path tr) ''summary.csv'')
               \<and> map_of result ''t'' = Some (PFloat (t_stop tr - t_start tr))
               \<and> ''program'' \<notin> fst ` set result
               \<and> (\<forall>k. k \<noteq> ''t'' \<and> k \<noteq> ''program'' \<longrightarrow> map_of result k = map_of (returned tr) k)))
       \<and> (''program'' \<notin> fst ` set (returned tr) \<longrightarrow> train_dso w c = Inl (KeyError ''program''))"
proof (intro conjI impI)
  let ?d = "dict_set ''t'' (PFloat (t_stop tr - t_start tr)) (returned tr)"
  assume "''program'' \<in> fst ` set (returned tr)"
  then have "''program'' \<in> fst ` set ?d" by (simp add: dict_set_keys)
  from dict_pop_present[OF this] obtain v
    where pop: "dict_pop ''program'' ?d = Inr (v, filter (\<lambda>kv. fst kv \<noteq> ''program'') ?d)" by blast
  let ?r = "filter (\<lambda>kv. fst kv \<noteq> ''program'') ?d"
  have run: "train_dso w c = Inr (?r, path_join (save_path tr) ''summary.csv'')"
    by (simp add: train_dso_no_gym[OF assms] pop)
  from train_dso_Inr[OF run] assms(1)
  have "map_of ?r ''t'' = Some (PFloat (t_stop tr - t_start tr))" "''program'' \<notin> fst ` set ?r"
    by auto
  moreover have "\<forall>k. k \<noteq> ''t'' \<and> k \<noteq> ''program'' \<longrightarrow> map_of ?r k = map_of (returned tr) k"
    by (simp add: map_of_filter_other map_of_dict_set)
  ultimately show "\<exists>result. train_dso w c = Inr (result, path_join (save_path tr) ''summary.csv'')
               \<and> map_of result ''t'' = Some (PFloat (t_stop tr - t_start tr))
               \<and> ''program'' \<notin> fst ` set result
               \<and> (\<forall>k. k \<noteq> ''t'' \<and> k \<noteq> ''program'' \<longrightarrow> map_of result k = map_of (returned tr) k)"
    using run by blast
next
  let ?d = "dict_set ''t'' (PFloat (t_stop tr - t_start tr)) (returned tr)"
  assume "''program'' \<notin> fst ` set (returned tr)"
  then have "''program'' \<notin> fst ` set ?d" by (simp add: dict_set_keys)
  then have "map_of ?d ''program'' = None" by (simp add: map_of_eq_None_iff)
  then have "dict_pop ''program'' ?d = Inl (KeyError ''program'')" by (simp add: dict_pop_def)
  then show "train_dso w c = Inl (KeyError ''program'')"
    by (simp add: train_dso_no_gym[OF assms])
qed

theorem train_dso_result_fields_witness:
  "train example_world example_config = Inr (example_trained example_config)
   \<and> ''program'' \<in> fst ` set (returned (example_trained example_config))
   \<and> train_dso example_world example_config
       = Inr ([(''seed'', PInt 100), (''r'', PFloat 1), (''t'', PFloat 5)], ''log/run/summary.csv'')"
proof -
  have h1: "train example_world example_config = Inr (example_trained example_config)"
    by (simp add: example_world_def)
  have h2: "task_type (task example_config) = ''control'' \<and> 1 < n_cores_batch (training example_config)
              \<longrightarrow> gym_make example_world (env (task example_config)) = None"
    by (simp add: example_world_def)
  have h3: "''program'' \<in> fst ` set (returned (example_trained example_config))"
    by (simp add: example_trained_def)
  have e: "train_dso example_world example_config
       = Inr ([(''seed'', PInt 100), (''r'', PFloat 1), (''t'', PFloat 5)], ''log/run/summary.csv'')"
    by (simp add: run_defs example_defs)
  show ?thesis using h1 h3 e train_dso_result_fields[OF h1 h2] by simp
qed

text \<open>
  The claim as stated fails: a record without \<open>program\<close> makes \<open>train_dso\<close> raise, so
  there is no output record; and the output for a record with \<open>program\<close> has the
  duration under \<open>t\<close> and no entry \<open>time_elapsed\<close>.
\<close>

theorem train_dso_result_fields_counterexample:
  "train_dso bare_world example_config = Inl (KeyError ''program'')
   \<and> train_dso example_world example_config
       = Inr ([(''seed'', PInt 100), (''r'', PFloat 1), (''t'', PFloat 5)], ''log/run/summary.csv'')
   \<and> map_of [(''seed'', PInt 100), (''r'', PFloat 1), (''t'', PFloat 5)] ''time_elapsed'' = None"
  by (simp add: run_defs example_defs)

text \<open>
  C7, as the code has it. Whenever the resolved number of task-level workers (after
  \<open>-1\<close> is replaced by the CPU count and the result is clamped to \<open>runs\<close>) exceeds 1,
  the prepared configuration, and with it every generated replicate configuration, has
  \<open>verbose\<close> off and \<open>n_cores_batch = 1\<close>; the warning for \<open>verbose\<close> is printed iff it was
  on, the warning for \<open>n_cores_batch\<close> iff it was not 1.
\<close>
theorem parallel_safety_corrections:
  assumes "prepare w c0 runs n cli b = Inr (c, n', out)" and "1 < n'"
  shows "n' = fst (resolve_cores w n runs)
       \<and> \<not> verbose (training c) \<and> n_cores_batch (training c) = 1
       \<and> (SettingVerbose \<in> set out \<longleftrightarrow> verbose (training c0))
       \<and> (SettingNCoresBatch \<in> set out \<longleftrightarrow> n_cores_batch (training c0) \<noteq> 1)
       \<and> (\<forall>cfgs. generate_configs c runs = Inr cfgs \<longrightarrow>
             (\<forall>x\<in>set cfgs. \<not> verbose (training x) \<and> n_cores_batch (training x) = 1))"
proof -
  from prepare_Inr[OF assms(1)] have "n' = fst (resolve_cores w n runs)" by blast
  moreover from prepare_training[OF assms(1)] assms(2)
  have t: "\<not> verbose (training c) \<and> n_cores_batch (training c) = 1" by simp
  moreover from prepare_out[OF assms(1)] assms(2)
  have "(SettingVerbose \<in> set out \<longleftrightarrow> verbose (training c0))
       \<and> (SettingNCoresBatch \<in> set out \<longleftrightarrow> n_cores_batch (training c0) \<noteq> 1)" by simp
  moreover have "\<forall>cfgs. generate_configs c runs = Inr cfgs \<longrightarrow>
             (\<forall>x\<in>set cfgs. \<not> verbose (training x) \<and> n_cores_batch (training x) = 1)"
    using generate_configs_frame t by metis
  ultimately show ?thesis by blast
qed

theorem parallel_safety_corrections_witness:
  "prepare example_world example_config 3 2 None None
     = Inr (fst (fix_incompatible example_stamped 2), 2, [SettingVerbose, SettingNCoresBatch])
   \<and> (1::int) < 2
   \<and> \<not> verbose (training (fst (fix_incompatible example_stamped 2)))
   \<and> n_cores_batch (training (fst (fix_incompatible example_stamped 2))) = 1"
proof -
  have p: "prepare example_world example_config 3 2 None None
     = Inr (fst (fix_incompatible example_stamped 2), 2, [SettingVerbose, SettingNCoresBatch])"
    by (simp add: run_defs example_defs)
  have h: "(1::int) < 2" by simp
  show ?thesis using p h parallel_safety_corrections[OF p h] by simp
qed

text \<open>
  The claim as stated fails when more workers than replicates are requested: with
  \<open>runs = 1\<close> and \<open>n_cores_task = 2\<close> the count is clamped to 1 first, and the single
  replicate runs with \<open>verbose\<close> on and \<open>n_cores_batch = 2\<close>.
\<close>

theorem parallel_safety_corrections_counterexample:
  "prepare example_world example_config 1 2 None None
     = Inr (example_stamped, 1, [SettingNCoresTask 1 1])
   \<and> generate_configs example_stamped 1 = Inr [example_stamped]
   \<and> executed (fst (main example_world example_config 1 2 None None no_files))
       = [example_stamped]
   \<and> verbose (training example_stamped)
   \<and> n_cores_batch (training example_stamped) = 2"
  by (simp add: run_defs example_defs)

text \<open>
  C10. The worker count that decides the parallel-safety corrections is the clamped
  one. If it is at most 1 the training section is unchanged and neither warning is
  printed; a change or a warning implies a clamped count above 1; and with \<open>runs = 1\<close>,
  whatever \<open>n_cores_task\<close> is, every replicate configuration keeps the \<open>verbose\<close> and
  \<open>n_cores_batch\<close> of the loaded configuration.
\<close>
theorem clamp_precedes_corrections:
  assumes "prepare w c0 runs n cli b = Inr (c, n', out)"
  shows "n' = fst (resolve_cores w n runs)
       \<and> (n' \<le> 1 \<longrightarrow> training c = training c0
              \<and> SettingVerbose \<notin> set out \<and> SettingNCoresBatch \<notin> set out)
       \<and> (training c \<noteq> training c0 \<or> SettingVerbose \<in> set out \<or> SettingNCoresBatch \<in> set out \<longrightarrow> 1 < n')
       \<and> (runs = 1 \<longrightarrow> n' \<le> 1 \<and> training c = training c0
              \<and> (\<forall>cfgs. generate_configs c runs = Inr cfgs \<longrightarrow>
                    (\<forall>x\<in>set cfgs. verbose (training x) = verbose (training c0)
                                  \<and> n_cores_batch (training x) = n_cores_batch (training c0))))"
proof -
  from prepare_Inr[OF assms] have n': "n' = fst (resolve_cores w n runs)" by blast
  have le: "n' \<le> runs" unfolding n' by (auto simp: resolve_cores_def Let_def)
  note t = prepare_training[OF assms] and o = prepare_out[OF assms]
  have a: "n' \<le> 1 \<longrightarrow> training c = training c0
              \<and> SettingVerbose \<notin> set out \<and> SettingNCoresBatch \<notin> set out"
    using t o by simp
  have f: "\<forall>cfgs. generate_configs c runs = Inr cfgs \<longrightarrow> (\<forall>x\<in>set cfgs. training x = training c)"
    using generate_configs_frame by metis
  show ?thesis using n' le a f by auto
qed

theorem clamp_precedes_corrections_witness:
  "prepare example_world example_config 1 (- 1) None None
     = Inr (example_stamped, 1, [SettingNCoresTask 1 1])
   \<and> training example_stamped = training example_config
   \<and> verbose (training example_config) \<and> n_cores_batch (training example_config) = 2"
proof -
  have p: "prepare example_world example_config 1 (- 1) None None
     = Inr (example_stamped, 1, [SettingNCoresTask 1 1])"
    by (simp add: run_defs example_defs)
  show ?thesis using p clamp_precedes_corrections[OF p] by (simp add: example_config_def)
qed

text \<open>
  C8, as the code has it. When the benchmark override (if any) is accepted: if the
  loaded configuration has no \<open>seed\<close> key, \<open>main\<close> ends with KeyError at its first
  subscript of the key (line 68 or 73), in the initial state, for every \<open>runs\<close> and with
  or without a command-line seed; if the seed is null, no seed is given on the command
  line and \<open>runs \<ge> 1\<close>, \<open>main\<close> ends with the TypeError of \<open>seed += i\<close>, having printed only
  the warnings of the preparation. In both cases no replicate is executed, nothing is
  aggregated and no file is touched.
\<close>
theorem unestablished_seed_fails:
  assumes "override_benchmark c0 b = Inr c1"
  shows "(seed (experiment_sec c0) = Missing \<longrightarrow>
            main w c0 runs n cli b fs = (initial fs, Inl (KeyError ''seed'')))
       \<and> (seed (experiment_sec c0) = Null \<and> 1 \<le> runs \<longrightarrow>
            main w c0 runs n None b fs
              = ((initial fs)\<lparr>stdout := snd (resolve_cores w n runs)
                     @ snd (fix_incompatible c1 (fst (resolve_cores w n runs)))\<rparr>,
                 Inl (TypeError ''unsupported operand type(s) for +=: NoneType and int'')))
       \<and> (seed (experiment_sec c0) = Missing \<and> cli = None
            \<or> seed (experiment_sec c0) = Null \<and> cli = None \<and> 1 \<le> runs \<longrightarrow>
            executed (fst (main w c0 runs n cli b fs)) = []
            \<and> aggregated (fst (main w c0 runs n cli b fs)) = []
            \<and> files (fst (main w c0 runs n cli b fs)) = fs)"
proof -
  have a: "seed (experiment_sec c0) = Missing \<longrightarrow>
            main w c0 runs n cli b fs = (initial fs, Inl (KeyError ''seed''))"
    using prepare_missing_seed[OF assms, of w runs n cli] by (simp add: main_failed_early(1))
  have b: "seed (experiment_sec c0) = Null \<and> 1 \<le> runs \<longrightarrow>
            main w c0 runs n None b fs
              = ((initial fs)\<lparr>stdout := snd (resolve_cores w n runs)
                     @ snd (fix_incompatible c1 (fst (resolve_cores w n runs)))\<rparr>,
                 Inl (TypeError ''unsupported operand type(s) for +=: NoneType and int''))"
  proof
    assume h: "seed (experiment_sec c0) = Null \<and> 1 \<le> runs"
    from prepare_null_seed[OF assms, of w runs n] h obtain c
      where p: "prepare w c0 runs n None b
            = Inr (c, fst (resolve_cores w n runs),
                   snd (resolve_cores w n runs) @ snd (fix_incompatible c1 (fst (resolve_cores w n runs))))"
        and sd: "seed (experiment_sec c) = Null" by blast
    from generate_configs_Null[OF sd] h
    have g: "generate_configs c runs
               = Inl (TypeError ''unsupported operand type(s) for +=: NoneType and int'')" by simp
    from main_failed_early(2)[OF p g, of fs]
    show "main w c0 runs n None b fs
              = ((initial fs)\<lparr>stdout := snd (resolve_cores w n runs)
                     @ snd (fix_incompatible c1 (fst (resolve_cores w n runs)))\<rparr>,
                 Inl (TypeError ''unsupported operand type(s) for +=: NoneType and int''))" .
  qed
  have c: "seed (experiment_sec c0) = Missing \<and> cli = None
            \<or> seed (experiment_sec c0) = Null \<and> cli = None \<and> 1 \<le> runs \<longrightarrow>
            executed (fst (main w c0 runs n cli b fs)) = []
            \<and> aggregated (fst (main w c0 runs n cli b fs)) = []
            \<and> files (fst (main w c0 runs n cli b fs)) = fs"
    using a b by (auto simp: initial_def)
  show ?thesis using a b c by blast
qed

theorem unestablished_seed_fails_witness:
  "override_benchmark keyless_config None = Inr keyless_config
   \<and> seed (experiment_sec keyless_config) = Missing
   \<and> main example_world keyless_config 2 1 None None no_files
       = (initial no_files, Inl (KeyError ''seed''))
   \<and> main example_world keyless_config 0 1 (Some 5) None no_files
       = (initial no_files, Inl (KeyError ''seed''))
   \<and> override_benchmark seedless_config None = Inr seedless_config
   \<and> seed (experiment_sec seedless_config) = Null \<and> (1::int) \<le> 2
   \<and> snd (main example_world seedless_config 2 1 None None no_files)
       = Inl (TypeError ''unsupported operand type(s) for +=: NoneType and int'')
   \<and> executed (fst (main example_world seedless_config 2 1 None None no_files)) = []
   \<and> files (fst (main example_world seedless_config 2 1 None None no_files)) = no_files"
proof -
  have k1: "override_benchmark keyless_config None = Inr keyless_config"
    by (simp add: override_benchmark_def)
  have k2: "seed (experiment_sec keyless_config) = Missing" by (simp add: example_defs)
  have s1: "override_benchmark seedless_config None = Inr seedless_config"
    by (simp add: override_benchmark_def)
  have s2: "seed (experiment_sec seedless_config) = Null" by (simp add: example_defs)
  have ka: "main example_world keyless_config 2 1 None None no_files
       = (initial no_files, Inl (KeyError ''seed''))"
    using unestablished_seed_fails[OF k1, of example_world 2 1 None no_files] k2 by simp
  have kb: "main example_world keyless_config 0 1 (Some 5) None no_files
       = (initial no_files, Inl (KeyError ''seed''))"
    using unestablished_seed_fails[OF k1, of example_world 0 1 "Some 5" no_files] k2 by simp
  have sa: "snd (main example_world seedless_config 2 1 None None no_files)
       = Inl (TypeError ''unsupported operand type(s) for +=: NoneType and int'')
   \<and> executed (fst (main example_world seedless_config 2 1 None None no_files)) = []
   \<and> files (fst (main example_world seedless_config 2 1 None None no_files)) = no_files"
    using unestablished_seed_fails[OF s1, of example_world 2 1 None no_files] s2
    by (simp add: initial_def)
  show ?thesis using k1 k2 s1 s2 ka kb sa by simp
qed

text \<open>
  The claim as stated fails for \<open>runs = 0\<close>: the plan is built from a null seed without
  any error (it is empty), and the run ends later, with the UnboundLocalError of line
  114, which does not depend on the seed.
\<close>

theorem unestablished_seed_fails_counterexample:
  "seed (experiment_sec seedless_config) = Null
   \<and> prepare example_world seedless_config 0 1 None None
       = Inr (seedless_stamped, 0, [SettingNCoresTask 0 0])
   \<and> generate_configs seedless_stamped 0 = Inr []
   \<and> main example_world seedless_config 0 1 None None no_files
       = (\<lparr>stdout = [SettingNCoresTask 0 0, RunningSeeds 0], files = no_files,
           executed = [], aggregated = []\<rparr>,
          Inl (UnboundLocalError ''summary_path''))"
  by (simp add: run_defs example_defs)

lemma append_summary_other: "q \<noteq> p \<Longrightarrow> append_summary r p fs q = fs q"
  by (simp add: append_summary_def to_csv_def)

lemma append_summary_extends:
  "fs q = Some old \<Longrightarrow> \<exists>new. append_summary r p fs q = Some (old @ new)"
  by (cases "q = p") (simp_all add: append_summary_same append_summary_other)

lemma append_rows_extends:
  "fs q = Some old \<Longrightarrow> \<exists>new. append_rows rs fs q = Some (old @ new)"
proof (induction rs arbitrary: fs old)
  case Nil then show ?case by (simp add: append_rows_def)
next
  case (Cons r rs)
  from append_summary_extends[of fs q old "fst r" "snd r", OF Cons.prems]
  obtain new where n: "append_summary (fst r) (snd r) fs q = Some (old @ new)" by blast
  from Cons.IH[of "append_summary (fst r) (snd r) fs" "old @ new", OF n]
  show ?case by (auto simp: append_rows_Cons)
qed

lemma train_dso_raises: "train w x = Inl e \<Longrightarrow> \<exists>e'. train_dso w x = Inl e'"
  by (auto simp: train_dso_def split: option.splits)

lemma train_dso_raises_same:
  "train w x = Inl e \<Longrightarrow>
   (task_type (task x) = ''control'' \<and> 1 < n_cores_batch (training x) \<longrightarrow> gym_make w (env (task x)) = None)
   \<Longrightarrow> train_dso w x = Inl e"
  by (auto simp: train_dso_def split: option.splits)

lemma succeeded_length_le: "length (succeeded w cs) \<le> length cs"
  by (induction cs) (auto split: sum.splits)

lemma succeeded_prefix_exact:
  "\<forall>y\<in>set done. \<not> isl (train_dso w y) \<Longrightarrow> train_dso w x = Inl e \<Longrightarrow>
   length (succeeded w (done @ x # rest)) = length done"
  by (induction "done") (auto split: sum.splits)

text \<open>
  C2. In a successful run, whatever the resolved worker count and whatever the instants
  at which the pool completes the replicates: there are \<open>nat runs\<close> planned
  configurations, pairwise distinct; the executed replicates are a permutation of them
  (the plan itself in the serial path, the plan in completion order in the parallel
  path); for each of them the training routine returned a record, and the result handed
  to the aggregator at the same position is that record with \<open>t\<close> set and \<open>program\<close>
  removed, with the sink path of that replicate; there are \<open>nat runs\<close> such results; and
  every file holds what it held before the run followed by one data row for each result
  sent to its path, in that order, after a header row if the file was missing.
\<close>
theorem replicates_exactly_once:
  assumes "prepare w c0 runs n cli b = Inr (c, n', out)"
    and "generate_configs c runs = Inr cfgs"
    and "snd (main w c0 runs n cli b fs) = Inr ()"
  shows "length cfgs = nat runs \<and> distinct cfgs
       \<and> mset (executed (fst (main w c0 runs n cli b fs))) = mset cfgs
       \<and> executed (fst (main w c0 runs n cli b fs))
           = (if 1 < n' then sort_key (finish w) cfgs else cfgs)
       \<and> length (aggregated (fst (main w c0 runs n cli b fs))) = nat runs
       \<and> (\<forall>i<nat runs. \<exists>tr.
             train w (executed (fst (main w c0 runs n cli b fs)) ! i) = Inr tr
             \<and> aggregated (fst (main w c0 runs n cli b fs)) ! i
                 = (filter (\<lambda>kv. fst kv \<noteq> ''program'')
                      (dict_set ''t'' (PFloat (t_stop tr - t_start tr)) (returned tr)),
                    path_join (save_path tr) ''summary.csv''))
       \<and> map Inr (aggregated (fst (main w c0 runs n cli b fs)))
           = map (train_dso w) (executed (fst (main w c0 runs n cli b fs)))
       \<and> mset (map Inr (aggregated (fst (main w c0 runs n cli b fs)))) = mset (map (train_dso w) cfgs)
       \<and> (\<forall>p. files (fst (main w c0 runs n cli b fs)) p =
             (case fs p of
                Some old \<Rightarrow>
                  Some (old @ map (\<lambda>y. Data (map snd (fst y)))
                                 (filter (\<lambda>x. snd x = p) (aggregated (fst (main w c0 runs n cli b fs)))))
              | None \<Rightarrow>
                  (case filter (\<lambda>x. snd x = p) (aggregated (fst (main w c0 runs n cli b fs))) of
                     [] \<Rightarrow> None
                   | x # xs \<Rightarrow>
                       Some (Header (map fst (fst x)) # map (\<lambda>y. Data (map snd (fst y))) (x # xs)))))"
proof -
  let ?st = "fst (main w c0 runs n cli b fs)"
  from main_success_char[OF assms(3) assms(1) assms(2)]
  have e: "executed ?st = fetch_order w n' cfgs"
    and a: "map Inr (aggregated ?st) = map (train_dso w) (fetch_order w n' cfgs)"
    and f: "files ?st = append_rows (aggregated ?st) fs" by simp_all
  have m: "mset (executed ?st) = mset cfgs" by (simp add: e mset_fetch_order)
  have "mset (map (train_dso w) (fetch_order w n' cfgs)) = mset (map (train_dso w) cfgs)"
    by (simp add: mset_fetch_order)
  with a have am: "mset (map Inr (aggregated ?st)) = mset (map (train_dso w) cfgs)" by simp
  from a have "length (aggregated ?st) = length (fetch_order w n' cfgs)"
    using length_map by metis
  then have len: "length (aggregated ?st) = nat runs"
    by (simp add: length_fetch_order generate_configs_length[OF assms(2)])
  have ae: "map Inr (aggregated ?st) = map (train_dso w) (executed ?st)" by (simp add: a e)
  have tr: "\<forall>i<nat runs. \<exists>tr.
             train w (executed ?st ! i) = Inr tr
             \<and> aggregated ?st ! i
                 = (filter (\<lambda>kv. fst kv \<noteq> ''program'')
                      (dict_set ''t'' (PFloat (t_stop tr - t_start tr)) (returned tr)),
                    path_join (save_path tr) ''summary.csv'')"
  proof (intro allI impI)
    fix i assume i: "i < nat runs"
    with len have ia: "i < length (aggregated ?st)" by simp
    from ae have le: "length (executed ?st) = length (aggregated ?st)" using length_map by metis
    from ae have "map Inr (aggregated ?st) ! i = map (train_dso w) (executed ?st) ! i" by simp
    with ia le have "train_dso w (executed ?st ! i) = Inr (aggregated ?st ! i)" by simp
    then have "train_dso w (executed ?st ! i) = Inr (fst (aggregated ?st ! i), snd (aggregated ?st ! i))"
      by simp
    from train_dso_Inr_exact[OF this]
    show "\<exists>tr. train w (executed ?st ! i) = Inr tr
             \<and> aggregated ?st ! i
                 = (filter (\<lambda>kv. fst kv \<noteq> ''program'')
                      (dict_set ''t'' (PFloat (t_stop tr - t_start tr)) (returned tr)),
                    path_join (save_path tr) ''summary.csv'')"
      by (metis prod.collapse)
  qed
  have fc: "\<forall>p. files ?st p =
             (case fs p of
                Some old \<Rightarrow>
                  Some (old @ map (\<lambda>y. Data (map snd (fst y)))
                                 (filter (\<lambda>x. snd x = p) (aggregated ?st)))
              | None \<Rightarrow>
                  (case filter (\<lambda>x. snd x = p) (aggregated ?st) of
                     [] \<Rightarrow> None
                   | x # xs \<Rightarrow>
                       Some (Header (map fst (fst x)) # map (\<lambda>y. Data (map snd (fst y))) (x # xs))))"
    unfolding f using append_rows_content by blast
  show ?thesis
    using generate_configs_length[OF assms(2)] generate_configs_distinct[OF assms(2)] m ae am e len tr fc
    by (simp add: fetch_order_def)
qed

lemma example_prepare2:
  "prepare example_world example_config 3 2 None None
     = Inr (fst (fix_incompatible example_stamped 2), 2,
            [SettingVerbose, SettingNCoresBatch])"
  by (simp add: run_defs example_defs)

lemma replicate_nat3: "replicate 3 x = [x, x, x]"
  by (simp add: numeral_3_eq_3)

lemma example_generate2:
  "generate_configs (fst (fix_incompatible example_stamped 2)) 3
     = Inr [with_seed (fst (fix_incompatible example_stamped 2)) 100,
            with_seed (fst (fix_incompatible example_stamped 2)) 101,
            with_seed (fst (fix_incompatible example_stamped 2)) 102]"
  by (simp add: generate_configs_def replicate_nat3 with_seed_def fix_incompatible_def example_defs)

lemma example_main2:
  "snd (main example_world example_config 3 2 None None no_files) = Inr ()"
  by (simp add: run_defs example_defs replicate_nat3)

theorem replicates_exactly_once_witness:
  "prepare example_world example_config 3 2 None None
     = Inr (fst (fix_incompatible example_stamped 2), 2,
            [SettingVerbose, SettingNCoresBatch])
   \<and> snd (main example_world example_config 3 2 None None no_files) = Inr ()
   \<and> mset (executed (fst (main example_world example_config 3 2 None None no_files)))
       = mset [with_seed (fst (fix_incompatible example_stamped 2)) 100,
               with_seed (fst (fix_incompatible example_stamped 2)) 101,
               with_seed (fst (fix_incompatible example_stamped 2)) 102]
   \<and> length (aggregated (fst (main example_world example_config 3 2 None None no_files))) = 3
   \<and> files (fst (main example_world example_config 3 2 None None no_files)) ''log/run/summary.csv''
       = Some [Header [''seed'', ''r'', ''t''], Data [PInt 101, PFloat 1, PFloat 5],
               Data [PInt 102, PFloat 1, PFloat 5], Data [PInt 100, PFloat 1, PFloat 5]]"
proof -
  note th = replicates_exactly_once[OF example_prepare2 example_generate2 example_main2]
  have m: "mset (executed (fst (main example_world example_config 3 2 None None no_files)))
       = mset [with_seed (fst (fix_incompatible example_stamped 2)) 100,
               with_seed (fst (fix_incompatible example_stamped 2)) 101,
               with_seed (fst (fix_incompatible example_stamped 2)) 102]"
    by (rule th[THEN conjunct2, THEN conjunct2, THEN conjunct1])
  have l: "length (aggregated (fst (main example_world example_config 3 2 None None no_files))) = 3"
    using th[THEN conjunct2, THEN conjunct2, THEN conjunct2, THEN conjunct2, THEN conjunct1]
    by simp
  have f: "files (fst (main example_world example_config 3 2 None None no_files)) ''log/run/summary.csv''
       = Some [Header [''seed'', ''r'', ''t''], Data [PInt 101, PFloat 1, PFloat 5],
               Data [PInt 102, PFloat 1, PFloat 5], Data [PInt 100, PFloat 1, PFloat 5]]"
    by (simp add: run_defs example_defs replicate_nat3)
  show ?thesis using example_prepare2 example_main2 m l f by simp
qed

lemma header_rows_fresh: "header_rows (Header h # map data_row rs) = 1"
  using header_rows_append[of "[Header h]" "map data_row rs"]
  by (simp add: header_rows_data) (simp add: header_rows_def)

lemma data_rows_fresh: "data_rows (Header h # map data_row rs) = length rs"
  using data_rows_append[of "[Header h]" "map data_row rs"]
  by (simp add: data_rows_data) (simp add: data_rows_def)

text \<open>
  C3, as the code has it. Appending any non-empty sequence of records to a missing sink
  creates it with one header row, the keys of the first record, as its first row, and
  one data row per record. Appending any sequence to an existing sink keeps its rows as
  a prefix, adds no header row and adds one data row per record. After a successful run
  whose results all go to one path: if the path was missing at the start, the sink has
  exactly one header row and exactly \<open>runs\<close> data rows; if it existed, the sink is what
  it was followed by \<open>runs\<close> data rows and no header row.
\<close>
theorem summary_sink_one_header:
  "(fs p = None \<and> rs \<noteq> [] \<longrightarrow>
      (\<exists>rows. append_all rs p fs p = Some (Header (map fst (hd rs)) # rows)
           \<and> header_rows (Header (map fst (hd rs)) # rows) = 1
           \<and> data_rows (Header (map fst (hd rs)) # rows) = length rs))
 \<and> (fs p = Some old \<longrightarrow>
      (\<exists>new. append_all rs p fs p = Some (old @ new)
           \<and> header_rows (old @ new) = header_rows old
           \<and> data_rows (old @ new) = data_rows old + length rs))
 \<and> (snd (main w c0 runs n cli b fs) = Inr () \<and> fs p = None
      \<and> (\<forall>x\<in>set (aggregated (fst (main w c0 runs n cli b fs))). snd x = p) \<longrightarrow>
      (\<exists>rows. files (fst (main w c0 runs n cli b fs)) p = Some rows
           \<and> header_rows rows = 1 \<and> data_rows rows = nat runs \<and> 1 \<le> runs))
 \<and> (snd (main w c0 runs n cli b fs) = Inr () \<and> fs p = Some old
      \<and> (\<forall>x\<in>set (aggregated (fst (main w c0 runs n cli b fs))). snd x = p) \<longrightarrow>
      (\<exists>new. files (fst (main w c0 runs n cli b fs)) p = Some (old @ new)
           \<and> header_rows new = 0 \<and> data_rows new = nat runs \<and> 1 \<le> runs))"
proof (intro conjI impI)
  assume a: "fs p = None \<and> rs \<noteq> []"
  then obtain r rs' where rs: "rs = r # rs'" by (cases rs) auto
  from a have "append_all rs p fs p = Some (Header (map fst (hd rs)) # map data_row rs)"
    unfolding rs by (simp add: append_all_fresh)
  moreover have "header_rows (Header (map fst (hd rs)) # map data_row rs) = 1"
    by (rule header_rows_fresh)
  moreover have "data_rows (Header (map fst (hd rs)) # map data_row rs) = length rs"
    by (rule data_rows_fresh)
  ultimately show "\<exists>rows. append_all rs p fs p = Some (Header (map fst (hd rs)) # rows)
           \<and> header_rows (Header (map fst (hd rs)) # rows) = 1
           \<and> data_rows (Header (map fst (hd rs)) # rows) = length rs" by blast
next
  assume "fs p = Some old"
  then have "append_all rs p fs p = Some (old @ map data_row rs)"
    by (rule append_all_existing)
  then show "\<exists>new. append_all rs p fs p = Some (old @ new)
           \<and> header_rows (old @ new) = header_rows old
           \<and> data_rows (old @ new) = data_rows old + length rs"
    by (simp add: header_rows_append data_rows_append header_rows_data data_rows_data)
next
  let ?st = "fst (main w c0 runs n cli b fs)"
  assume a: "snd (main w c0 runs n cli b fs) = Inr () \<and> fs p = None
      \<and> (\<forall>x\<in>set (aggregated ?st). snd x = p)"
  from a main_success obtain c n' out cfgs
    where prep: "prepare w c0 runs n cli b = Inr (c, n', out)"
      and gen: "generate_configs c runs = Inr cfgs" by blast
  from a main_success_char[OF _ prep gen, of fs]
  have e: "map Inr (aggregated ?st) = map (train_dso w) (fetch_order w n' cfgs)"
    and f: "files ?st = append_rows (aggregated ?st) fs" and r: "1 \<le> runs" by simp_all
  from e have "length (aggregated ?st) = length (fetch_order w n' cfgs)"
    using length_map by metis
  then have len: "length (aggregated ?st) = nat runs"
    by (simp add: length_fetch_order generate_configs_length[OF gen])
  with r obtain x xs where ag: "aggregated ?st = x # xs" by (cases "aggregated ?st") auto
  from a have "append_rows (aggregated ?st) fs = append_all (map fst (aggregated ?st)) p fs"
    by (simp add: append_rows_one_path)
  with f a ag have "files ?st p = Some (Header (map fst (fst x)) # map data_row (map fst (aggregated ?st)))"
    by (simp add: append_all_fresh)
  moreover have "header_rows (Header (map fst (fst x)) # map data_row (map fst (aggregated ?st))) = 1"
    by (rule header_rows_fresh)
  moreover have "data_rows (Header (map fst (fst x)) # map data_row (map fst (aggregated ?st))) = nat runs"
    using data_rows_fresh[of "map fst (fst x)" "map fst (aggregated ?st)"] len
    by (simp only: length_map)
  ultimately show "\<exists>rows. files ?st p = Some rows
           \<and> header_rows rows = 1 \<and> data_rows rows = nat runs \<and> 1 \<le> runs"
    using r by blast
next
  let ?st = "fst (main w c0 runs n cli b fs)"
  assume a: "snd (main w c0 runs n cli b fs) = Inr () \<and> fs p = Some old
      \<and> (\<forall>x\<in>set (aggregated ?st). snd x = p)"
  from a main_success obtain c n' out cfgs
    where prep: "prepare w c0 runs n cli b = Inr (c, n', out)"
      and gen: "generate_configs c runs = Inr cfgs" by blast
  from a main_success_char[OF _ prep gen, of fs]
  have e: "map Inr (aggregated ?st) = map (train_dso w) (fetch_order w n' cfgs)"
    and f: "files ?st = append_rows (aggregated ?st) fs" and r: "1 \<le> runs" by simp_all
  from e have "length (aggregated ?st) = length (fetch_order w n' cfgs)"
    using length_map by metis
  then have len: "length (aggregated ?st) = nat runs"
    by (simp add: length_fetch_order generate_configs_length[OF gen])
  from a have "append_rows (aggregated ?st) fs = append_all (map fst (aggregated ?st)) p fs"
    by (simp add: append_rows_one_path)
  with f a have "files ?st p = Some (old @ map data_row (map fst (aggregated ?st)))"
    by (simp add: append_all_existing)
  moreover have "header_rows (map data_row (map fst (aggregated ?st))) = 0"
    by (rule header_rows_data)
  moreover have "data_rows (map data_row (map fst (aggregated ?st))) = nat runs"
    using data_rows_data[of "map fst (aggregated ?st)"] len by (simp only: length_map)
  ultimately show "\<exists>new. files ?st p = Some (old @ new)
           \<and> header_rows new = 0 \<and> data_rows new = nat runs \<and> 1 \<le> runs"
    using r by blast
qed

lemma example_main1:
  "snd (main example_world example_config 3 1 None None no_files) = Inr ()"
  by (simp add: run_defs example_defs replicate_nat3)

lemma example_aggregated1:
  "aggregated (fst (main example_world example_config 3 1 None None no_files))
     = [([(''seed'', PInt 100), (''r'', PFloat 1), (''t'', PFloat 5)], ''log/run/summary.csv''),
        ([(''seed'', PInt 101), (''r'', PFloat 1), (''t'', PFloat 5)], ''log/run/summary.csv''),
        ([(''seed'', PInt 102), (''r'', PFloat 1), (''t'', PFloat 5)], ''log/run/summary.csv'')]"
  by (simp add: run_defs example_defs replicate_nat3)

lemma example_main_old:
  "snd (main example_world example_config 3 1 None None old_sink) = Inr ()"
  by (simp add: run_defs example_defs replicate_nat3)

lemma example_aggregated_old:
  "aggregated (fst (main example_world example_config 3 1 None None old_sink))
     = [([(''seed'', PInt 100), (''r'', PFloat 1), (''t'', PFloat 5)], ''log/run/summary.csv''),
        ([(''seed'', PInt 101), (''r'', PFloat 1), (''t'', PFloat 5)], ''log/run/summary.csv''),
        ([(''seed'', PInt 102), (''r'', PFloat 1), (''t'', PFloat 5)], ''log/run/summary.csv'')]"
  by (simp add: run_defs example_defs replicate_nat3)

theorem summary_sink_one_header_witness:
  "snd (main example_world example_config 3 1 None None no_files) = Inr ()
   \<and> (\<exists>rows. files (fst (main example_world example_config 3 1 None None no_files))
                ''log/run/summary.csv'' = Some rows
          \<and> header_rows rows = 1 \<and> data_rows rows = 3)
   \<and> snd (main example_world example_config 3 1 None None old_sink) = Inr ()
   \<and> (\<exists>new. files (fst (main example_world example_config 3 1 None None old_sink)) ''log/run/summary.csv''
                = Some ([Header [''seed'', ''r'', ''t''], Data [PInt 7, PFloat 1, PFloat 4]] @ new)
          \<and> header_rows new = 0 \<and> data_rows new = 3)
   \<and> (\<exists>rows. append_all [[(''r'', PFloat 1)], [(''r'', PFloat 2)]] ''s.csv'' no_files ''s.csv''
                = Some (Header [''r''] # rows)
          \<and> header_rows (Header [''r''] # rows) = 1 \<and> data_rows (Header [''r''] # rows) = 2)
   \<and> (\<exists>new. append_all [[(''r'', PFloat 2)]] ''s.csv''
                 (no_files(''s.csv'' \<mapsto> [Header [''r''], Data [PFloat 1]])) ''s.csv''
                = Some ([Header [''r''], Data [PFloat 1]] @ new)
          \<and> header_rows ([Header [''r''], Data [PFloat 1]] @ new) = 1
          \<and> data_rows ([Header [''r''], Data [PFloat 1]] @ new) = 2)"
proof -
  have h: "\<forall>x\<in>set (aggregated (fst (main example_world example_config 3 1 None None no_files))).
             snd x = ''log/run/summary.csv''"
    by (simp add: example_aggregated1)
  have c: "header_rows [Header [''r''], Data [PFloat 1]] = 1" "data_rows [Header [''r''], Data [PFloat 1]] = 1"
    by (simp_all add: header_rows_def data_rows_def)
  have a: "\<exists>rows. files (fst (main example_world example_config 3 1 None None no_files))
                ''log/run/summary.csv'' = Some rows
          \<and> header_rows rows = 1 \<and> data_rows rows = 3"
    using example_main1 h
      summary_sink_one_header[of no_files "''log/run/summary.csv''" "[]" "[]"
         example_world example_config 3 1 None None]
    by (simp add: no_files_def)
  have b: "\<exists>rows. append_all [[(''r'', PFloat 1)], [(''r'', PFloat 2)]] ''s.csv'' no_files ''s.csv''
                = Some (Header [''r''] # rows)
          \<and> header_rows (Header [''r''] # rows) = 1 \<and> data_rows (Header [''r''] # rows) = 2"
    using summary_sink_one_header[of no_files "''s.csv''" "[[(''r'', PFloat 1)], [(''r'', PFloat 2)]]" "[]"
         example_world example_config 3 1 None None]
    by (simp add: numeral_2_eq_2 no_files_def)
  have d: "\<exists>new. append_all [[(''r'', PFloat 2)]] ''s.csv''
                 (no_files(''s.csv'' \<mapsto> [Header [''r''], Data [PFloat 1]])) ''s.csv''
                = Some ([Header [''r''], Data [PFloat 1]] @ new)
          \<and> header_rows ([Header [''r''], Data [PFloat 1]] @ new) = 1
          \<and> data_rows ([Header [''r''], Data [PFloat 1]] @ new) = 2"
    using summary_sink_one_header[of "(no_files(''s.csv'' \<mapsto> [Header [''r''], Data [PFloat 1]]))" "''s.csv''"
         "[[(''r'', PFloat 2)]]" "[Header [''r''], Data [PFloat 1]]" example_world example_config 3 1 None None]
    by (simp add: c numeral_2_eq_2)
  have ho: "\<forall>x\<in>set (aggregated (fst (main example_world example_config 3 1 None None old_sink))).
             snd x = ''log/run/summary.csv''"
    by (simp add: example_aggregated_old)
  have o: "old_sink ''log/run/summary.csv''
             = Some [Header [''seed'', ''r'', ''t''], Data [PInt 7, PFloat 1, PFloat 4]]"
    by (simp add: old_sink_def)
  have e: "\<exists>new. files (fst (main example_world example_config 3 1 None None old_sink)) ''log/run/summary.csv''
                = Some ([Header [''seed'', ''r'', ''t''], Data [PInt 7, PFloat 1, PFloat 4]] @ new)
          \<and> header_rows new = 0 \<and> data_rows new = 3"
    using example_main_old ho o
      summary_sink_one_header[of old_sink "''log/run/summary.csv''" "[]"
         "[Header [''seed'', ''r'', ''t''], Data [PInt 7, PFloat 1, PFloat 4]]"
         example_world example_config 3 1 None None]
    by simp
  show ?thesis using example_main1 example_main_old a b d e by blast
qed

text \<open>
  The claim as stated fails on a sink that exists before the run: with a header and one
  row of an earlier run, a successful run of 3 replicates leaves 4 data rows; on an
  existing empty file it leaves 3 data rows and no header row.
\<close>

theorem summary_sink_one_header_counterexample:
  "snd (main example_world example_config 3 1 None None old_sink) = Inr ()
   \<and> files (fst (main example_world example_config 3 1 None None old_sink)) ''log/run/summary.csv''
       = Some [Header [''seed'', ''r'', ''t''], Data [PInt 7, PFloat 1, PFloat 4],
               Data [PInt 100, PFloat 1, PFloat 5], Data [PInt 101, PFloat 1, PFloat 5],
               Data [PInt 102, PFloat 1, PFloat 5]]
   \<and> data_rows [Header [''seed'', ''r'', ''t''], Data [PInt 7, PFloat 1, PFloat 4],
               Data [PInt 100, PFloat 1, PFloat 5], Data [PInt 101, PFloat 1, PFloat 5],
               Data [PInt 102, PFloat 1, PFloat 5]] = 4
   \<and> snd (main example_world example_config 3 1 None None empty_sink) = Inr ()
   \<and> files (fst (main example_world example_config 3 1 None None empty_sink)) ''log/run/summary.csv''
       = Some [Data [PInt 100, PFloat 1, PFloat 5], Data [PInt 101, PFloat 1, PFloat 5],
               Data [PInt 102, PFloat 1, PFloat 5]]
   \<and> header_rows [Data [PInt 100, PFloat 1, PFloat 5], Data [PInt 101, PFloat 1, PFloat 5],
               Data [PInt 102, PFloat 1, PFloat 5]] = 0"
  by (simp add: run_defs example_defs replicate_nat3 header_rows_def data_rows_def)

lemma first_failure_Some_length:
  "first_failure w cs = Some e \<Longrightarrow> length (succeeded w cs) < length cs"
  by (induction cs) (auto split: sum.splits)

text \<open>
  C9. If the training call raises for a planned replicate \<open>x\<close>, \<open>main\<close> ends with the
  error of the first replicate, in fetch order, whose \<open>train_dso\<close> raises. The aggregated
  results are exactly the outputs of the replicates fetched before it, and fewer than
  planned; the files are the initial files with those rows appended, so every file
  that existed keeps its rows as a prefix; the executed replicates are those and the
  failing one, each once. When every replicate fetched before \<open>x\<close> succeeds and the
  preconditioning of \<open>x\<close> does not raise, the error is the one raised by the training
  call of \<open>x\<close>.
\<close>
theorem replicate_failure_aborts:
  assumes "prepare w c0 runs n cli b = Inr (c, n', out)"
    and "generate_configs c runs = Inr cfgs"
    and "x \<in> set cfgs"
    and "train w x = Inl e"
  shows "(\<exists>e'. snd (main w c0 runs n cli b fs) = Inl e'
               \<and> first_failure w (fetch_order w n' cfgs) = Some e')
       \<and> aggregated (fst (main w c0 runs n cli b fs)) = succeeded w (fetch_order w n' cfgs)
       \<and> length (aggregated (fst (main w c0 runs n cli b fs))) < length cfgs
       \<and> files (fst (main w c0 runs n cli b fs))
           = append_rows (aggregated (fst (main w c0 runs n cli b fs))) fs
       \<and> (\<forall>q old. fs q = Some old \<longrightarrow>
             (\<exists>new. files (fst (main w c0 runs n cli b fs)) q = Some (old @ new)))
       \<and> executed (fst (main w c0 runs n cli b fs))
           = take (Suc (length (aggregated (fst (main w c0 runs n cli b fs))))) (fetch_order w n' cfgs)
       \<and> distinct (executed (fst (main w c0 runs n cli b fs)))
       \<and> (\<forall>done rest. fetch_order w n' cfgs = done @ x # rest
             \<and> (\<forall>y\<in>set done. \<not> isl (train_dso w y))
             \<and> (task_type (task x) = ''control'' \<and> 1 < n_cores_batch (training x)
                  \<longrightarrow> gym_make w (env (task x)) = None) \<longrightarrow>
             snd (main w c0 runs n cli b fs) = Inl e
             \<and> executed (fst (main w c0 runs n cli b fs)) = done @ [x]
             \<and> map Inr (aggregated (fst (main w c0 runs n cli b fs))) = map (train_dso w) done)"
proof -
  let ?st = "fst (main w c0 runs n cli b fs)"
  let ?order = "fetch_order w n' cfgs"
  note mc = main_char[OF assms(1) assms(2), of fs]
  from assms(3) have xin: "x \<in> set ?order"
    using mset_fetch_order[of w n' cfgs] by (metis set_mset_mset)
  from train_dso_raises[OF assms(4)] obtain e0 where "train_dso w x = Inl e0" by blast
  from first_failure_Some[OF xin this] obtain e' where ff: "first_failure w ?order = Some e'" by blast
  from mc ff have out: "snd (main w c0 runs n cli b fs) = Inl e'" by simp
  from mc have ag: "aggregated ?st = succeeded w ?order"
    and fl: "files ?st = append_rows (aggregated ?st) fs"
    and ex: "executed ?st = take (Suc (length (aggregated ?st))) ?order" by simp_all
  from first_failure_Some_length[OF ff] have lt: "length (aggregated ?st) < length cfgs"
    by (simp add: ag length_fetch_order)
  have ext: "\<forall>q old. fs q = Some old \<longrightarrow> (\<exists>new. files ?st q = Some (old @ new))"
    using append_rows_extends[of fs _ _ "aggregated ?st"] by (simp add: fl)
  have "distinct ?order"
    using generate_configs_distinct[OF assms(2)] mset_fetch_order[of w n' cfgs]
    by (metis mset_eq_imp_distinct_iff)
  then have dist: "distinct (executed ?st)" by (simp add: ex)
  have split: "\<forall>done rest. ?order = done @ x # rest
             \<and> (\<forall>y\<in>set done. \<not> isl (train_dso w y))
             \<and> (task_type (task x) = ''control'' \<and> 1 < n_cores_batch (training x)
                  \<longrightarrow> gym_make w (env (task x)) = None) \<longrightarrow>
             snd (main w c0 runs n cli b fs) = Inl e
             \<and> executed ?st = done @ [x]
             \<and> map Inr (aggregated ?st) = map (train_dso w) done"
  proof (intro allI impI)
    fix done' rest
    assume a: "?order = done' @ x # rest
             \<and> (\<forall>y\<in>set done'. \<not> isl (train_dso w y))
             \<and> (task_type (task x) = ''control'' \<and> 1 < n_cores_batch (training x)
                  \<longrightarrow> gym_make w (env (task x)) = None)"
    then have tx: "train_dso w x = Inl e" using train_dso_raises_same[OF assms(4)] by blast
    from a have d: "\<forall>y\<in>set done'. \<not> isl (train_dso w y)" by blast
    from succeeded_prefix[OF d tx, of rest] a
    have s: "map Inr (succeeded w ?order) = map (train_dso w) done'"
      and f: "first_failure w ?order = Some e" by simp_all
    from succeeded_prefix_exact[OF d tx, of rest] a
    have l: "length (succeeded w ?order) = length done'" by simp
    from a have "take (Suc (length done')) ?order = done' @ [x]" by simp
    with mc s f l ag show "snd (main w c0 runs n cli b fs) = Inl e
             \<and> executed ?st = done' @ [x]
             \<and> map Inr (aggregated ?st) = map (train_dso w) done'" by simp
  qed
  show ?thesis using out ff ag lt fl ext ex dist split by blast
qed

lemma failing_prepare1:
  "prepare failing_world example_config 3 1 None None
     = Inr (example_stamped, 1, [])"
  by (simp add: run_defs example_defs)

lemma failing_generate1:
  "generate_configs example_stamped 3
     = Inr [with_seed example_stamped 100,
            with_seed example_stamped 101,
            with_seed example_stamped 102]"
  by (simp add: generate_configs_def replicate_nat3 with_seed_def example_defs)

theorem replicate_failure_aborts_witness:
  "prepare failing_world example_config 3 1 None None
     = Inr (example_stamped, 1, [])
   \<and> train failing_world (with_seed example_stamped 101)
       = Inl (TrainingError ''diverged'')
   \<and> snd (main failing_world example_config 3 1 None None no_files) = Inl (TrainingError ''diverged'')
   \<and> executed (fst (main failing_world example_config 3 1 None None no_files))
       = [with_seed example_stamped 100,
          with_seed example_stamped 101]
   \<and> files (fst (main failing_world example_config 3 1 None None no_files)) ''log/run/summary.csv''
       = Some [Header [''seed'', ''r'', ''t''], Data [PInt 100, PFloat 1, PFloat 5]]"
proof -
  let ?c = "example_stamped"
  have x: "with_seed ?c 101 \<in> set [with_seed ?c 100, with_seed ?c 101, with_seed ?c 102]" by simp
  have t: "train failing_world (with_seed ?c 101) = Inl (TrainingError ''diverged'')"
    by (simp add: failing_world_def with_seed_def)
  have o: "fetch_order failing_world 1 [with_seed ?c 100, with_seed ?c 101, with_seed ?c 102]
             = [with_seed ?c 100] @ with_seed ?c 101 # [with_seed ?c 102]"
    by (simp add: fetch_order_def)
  have d: "\<forall>y\<in>set [with_seed ?c 100]. \<not> isl (train_dso failing_world y)"
    by (simp add: train_dso_def dict_pop_def with_seed_def example_defs)
  have g: "task_type (task (with_seed ?c 101)) = ''control'' \<and> 1 < n_cores_batch (training (with_seed ?c 101))
             \<longrightarrow> gym_make failing_world (env (task (with_seed ?c 101))) = None"
    by (simp add: with_seed_def example_defs)
  have f: "files (fst (main failing_world example_config 3 1 None None no_files)) ''log/run/summary.csv''
       = Some [Header [''seed'', ''r'', ''t''], Data [PInt 100, PFloat 1, PFloat 5]]"
    by (simp add: run_defs example_defs replicate_nat3)
  have "\<forall>done rest. fetch_order failing_world 1 [with_seed ?c 100, with_seed ?c 101, with_seed ?c 102]
               = done @ with_seed ?c 101 # rest
             \<and> (\<forall>y\<in>set done. \<not> isl (train_dso failing_world y))
             \<and> (task_type (task (with_seed ?c 101)) = ''control''
                  \<and> 1 < n_cores_batch (training (with_seed ?c 101))
                  \<longrightarrow> gym_make failing_world (env (task (with_seed ?c 101))) = None) \<longrightarrow>
             snd (main failing_world example_config 3 1 None None no_files) = Inl (TrainingError ''diverged'')
             \<and> executed (fst (main failing_world example_config 3 1 None None no_files))
                 = done @ [with_seed ?c 101]
             \<and> map Inr (aggregated (fst (main failing_world example_config 3 1 None None no_files)))
                 = map (train_dso failing_world) done"
    using replicate_failure_aborts[OF failing_prepare1 failing_generate1 x t, of no_files]
    by (elim conjE) assumption
  from this[rule_format, of "[with_seed ?c 100]" "[with_seed ?c 102]"] o d g
  have "snd (main failing_world example_config 3 1 None None no_files) = Inl (TrainingError ''diverged'')
      \<and> executed (fst (main failing_world example_config 3 1 None None no_files))
           = [with_seed ?c 100] @ [with_seed ?c 101]"
    by blast
  with failing_prepare1 t f show ?thesis by simp
qed

end
